theory Spec2Isabelle
  imports Complex_Main
begin

section \<open>Values of the Python program\<close>

text \<open>
  A Python \<open>str\<close> is a sequence of Unicode code points; it is modelled as a list of
  natural numbers, one per code point, so that \<open>len\<close> and the character classes of
  \<open>re\<close> count what Python counts. \<open>ustr\<close> turns an ASCII literal into such a
  sequence.
\<close>

type_synonym pystr = "nat list"

definition ustr :: "string \<Rightarrow> pystr" where
  "ustr cs = map of_char cs"

text \<open>
  A Python \<open>float\<close> is idealised as a real number, with the one special value the
  program tests for (\<open>pd.notna\<close>) kept apart. Rounding and overflow are not modelled.
  Comparisons with \<open>NaN\<close> are false, arithmetic with \<open>NaN\<close> gives \<open>NaN\<close>.
\<close>

datatype pyfloat = Fin real | NaN

fun fge :: "pyfloat \<Rightarrow> pyfloat \<Rightarrow> bool" where
  "fge (Fin a) (Fin b) = (a \<ge> b)"
| "fge _ _ = False"

fun fle :: "pyfloat \<Rightarrow> pyfloat \<Rightarrow> bool" where
  "fle (Fin a) (Fin b) = (a \<le> b)"
| "fle _ _ = False"

fun fadd :: "pyfloat \<Rightarrow> pyfloat \<Rightarrow> pyfloat" where
  "fadd (Fin a) (Fin b) = Fin (a + b)"
| "fadd _ _ = NaN"

fun fsub :: "pyfloat \<Rightarrow> pyfloat \<Rightarrow> pyfloat" where
  "fsub (Fin a) (Fin b) = Fin (a - b)"
| "fsub _ _ = NaN"

fun fmul :: "pyfloat \<Rightarrow> pyfloat \<Rightarrow> pyfloat" where
  "fmul (Fin a) (Fin b) = Fin (a * b)"
| "fmul _ _ = NaN"

text \<open>Division is only ever by the literal \<open>2\<close> in this program.\<close>

fun fhalf :: "pyfloat \<Rightarrow> pyfloat" where
  "fhalf (Fin a) = Fin (a / 2)"
| "fhalf NaN = NaN"


text \<open>
  Exceptions are values. \<open>Failure\<close> stands for an exception of class
  \<open>Exception\<close> raised by an external library (its message is the argument),
  \<open>Interrupt\<close> for one that derives from \<open>BaseException\<close> only
  (\<open>KeyboardInterrupt\<close>, \<open>SystemExit\<close>), which \<open>except Exception\<close>
  does not catch.
\<close>

datatype exc =
    KeyError
  | TypeError
  | ValueError
  | IndexError
  | AttributeError
  | Failure pystr
  | Interrupt pystr

fun is_Exception :: "exc \<Rightarrow> bool" where
  "is_Exception (Interrupt _) = False"
| "is_Exception _ = True"

text \<open>
  The cells of a data frame that the pipeline reads or writes: \<open>None\<close>, a string or a
  float. A row (the \<open>Series\<close> that \<open>df.apply(..., axis=1)\<close> passes) maps column
  names to cells.
\<close>

datatype cell = CNone | CStr pystr | CFloat pyfloat

type_synonym row = "pystr \<rightharpoonup> cell"

text \<open>\<open>pd.notna\<close>: false on \<open>None\<close> and on the float not-a-number.\<close>

fun notna :: "cell \<Rightarrow> bool" where
  "notna CNone = False"
| "notna (CFloat NaN) = False"
| "notna _ = True"

text \<open>\<open>row.get(k, default)\<close>, \<open>row[k]\<close> and \<open>k in row\<close>.\<close>

definition row_get :: "row \<Rightarrow> pystr \<Rightarrow> cell \<Rightarrow> cell" where
  "row_get r k dflt = (case r k of None \<Rightarrow> dflt | Some v \<Rightarrow> v)"

definition row_item :: "row \<Rightarrow> pystr \<Rightarrow> exc + cell" where
  "row_item r k = (case r k of None \<Rightarrow> Inl KeyError | Some v \<Rightarrow> Inr v)"

definition in_row :: "pystr \<Rightarrow> row \<Rightarrow> bool" where
  "in_row k r = (r k \<noteq> None)"

text \<open>
  Arithmetic on cells: defined on floats; with a string or \<open>None\<close> operand the
  operations of this program (\<open>x + 1\<close>, \<open>x - y\<close>, \<open>0.3 * x\<close>, \<open>x / 2\<close>) raise
  \<open>TypeError\<close>.
\<close>

fun cell_add :: "cell \<Rightarrow> pyfloat \<Rightarrow> exc + cell" where
  "cell_add (CFloat a) b = Inr (CFloat (fadd a b))"
| "cell_add _ _ = Inl TypeError"

fun cell_sub :: "cell \<Rightarrow> cell \<Rightarrow> exc + cell" where
  "cell_sub (CFloat a) (CFloat b) = Inr (CFloat (fsub a b))"
| "cell_sub _ _ = Inl TypeError"

fun cell_half :: "cell \<Rightarrow> exc + cell" where
  "cell_half (CFloat a) = Inr (CFloat (fhalf a))"
| "cell_half _ = Inl TypeError"

fun cell_scale :: "pyfloat \<Rightarrow> cell \<Rightarrow> exc + cell" where
  "cell_scale k (CFloat a) = Inr (CFloat (fmul k a))"
| "cell_scale _ _ = Inl TypeError"

fun cell_plus :: "cell \<Rightarrow> cell \<Rightarrow> exc + cell" where
  "cell_plus (CFloat a) (CFloat b) = Inr (CFloat (fadd a b))"
| "cell_plus _ _ = Inl TypeError"

text \<open>
  What lies outside the repository is a parameter: the Unicode table behind
  \<open>\w\<close> for code points from 128 on, the printing of floats, and the constructors of
  the two scorers' libraries.
\<close>

record scores =
  sc_compound :: pyfloat
  sc_pos :: pyfloat
  sc_neg :: pyfloat
  sc_neu :: pyfloat

text \<open>
  The transformer runtime behind \<open>RobertaAnalyzer\<close>: \<open>forward1 text\<close> is the logits
  tensor of \<open>self.model(**self.tokenizer(text, ...))\<close>, \<open>forwardB batch\<close> that of the
  padded batch call, \<open>softmax\<close> is \<open>scipy.special.softmax\<close> on one row, and
  \<open>id2label\<close> the label table of the model's configuration.
\<close>

record runtime =
  forward1 :: "pystr \<Rightarrow> exc + pyfloat list list"
  forwardB :: "pystr list \<Rightarrow> exc + pyfloat list list"
  softmax :: "pyfloat list \<Rightarrow> pyfloat list"
  id2label :: "nat \<rightharpoonup> pystr"

record libs =
  uni_alnum :: "nat \<Rightarrow> bool"
  float_repr :: "real \<Rightarrow> pystr"
  vader_ctor :: "exc + (pystr \<Rightarrow> scores)"
  transformers_import :: "exc option"
  from_pretrained :: "pystr \<Rightarrow> exc + runtime"

text \<open>\<open>str(x)\<close> on a cell.\<close>

fun py_str :: "libs \<Rightarrow> cell \<Rightarrow> pystr" where
  "py_str L CNone = ustr ''None''"
| "py_str L (CStr s) = s"
| "py_str L (CFloat NaN) = ustr ''nan''"
| "py_str L (CFloat (Fin x)) = float_repr L x"

section \<open>Character classes and regular expressions\<close>

text \<open>
  \<open>str.isspace\<close>, which is also \<open>\s\<close> of \<open>re\<close> on \<open>str\<close> patterns and what
  \<open>strip()\<close> and \<open>split()\<close> remove: the 29 white-space code points of Unicode.
\<close>

definition is_space :: "nat \<Rightarrow> bool" where
  "is_space c =
     ((9 \<le> c \<and> c \<le> 13) \<or> (28 \<le> c \<and> c \<le> 32) \<or> c = 133 \<or> c = 160 \<or> c = 5760 \<or>
      (8192 \<le> c \<and> c \<le> 8202) \<or> c = 8232 \<or> c = 8233 \<or> c = 8239 \<or> c = 8287 \<or> c = 12288)"

text \<open>\<open>\w\<close>: alphanumeric or underscore; beyond ASCII the Unicode table decides.\<close>

definition is_word :: "libs \<Rightarrow> nat \<Rightarrow> bool" where
  "is_word L c =
     (if c < 128 then (48 \<le> c \<and> c \<le> 57) \<or> (65 \<le> c \<and> c \<le> 90) \<or> c = 95 \<or> (97 \<le> c \<and> c \<le> 122)
      else uni_alnum L c)"

text \<open>
  A literal under \<open>re.IGNORECASE\<close>: an ASCII letter matches both of its cases, and
  \<open>i\<close>, \<open>s\<close> and \<open>k\<close> also match the dotted and dotless I (304, 305), the long s
  (383) and the Kelvin sign (8490); any other literal matches itself.
\<close>

definition ascii_lower :: "nat \<Rightarrow> nat" where
  "ascii_lower c = (if 65 \<le> c \<and> c \<le> 90 then c + 32 else c)"

definition ci :: "char \<Rightarrow> nat \<Rightarrow> bool" where
  "ci l c =
     (let k = ascii_lower (of_char l) in
      ascii_lower c = k \<or> (k = 105 \<and> (c = 304 \<or> c = 305)) \<or> (k = 115 \<and> c = 383) \<or>
      (k = 107 \<and> c = 8490))"

definition ch :: "char \<Rightarrow> nat \<Rightarrow> bool" where
  "ch l c = (c = of_char l)"

text \<open>
  The patterns of this program are alternatives of sequences of quantified character
  classes: one character, an optional one (\<open>?\<close>), or one or more (\<open>+\<close>, greedy).
  \<open>match_seq\<close> is the backtracking matcher of \<open>re\<close> at the start of the text: it
  returns the text left after the first match in the engine's order of preference.
\<close>

datatype item = One "nat \<Rightarrow> bool" | Opt "nat \<Rightarrow> bool" | Plus "nat \<Rightarrow> bool"

fun match_seq :: "item list \<Rightarrow> pystr \<Rightarrow> pystr option" where
  "match_seq [] s = Some s"
| "match_seq (One p # r) [] = None"
| "match_seq (One p # r) (c # cs) = (if p c then match_seq r cs else None)"
| "match_seq (Opt p # r) [] = match_seq r []"
| "match_seq (Opt p # r) (c # cs) =
     (if p c then (case match_seq r cs of Some rest \<Rightarrow> Some rest | None \<Rightarrow> match_seq r (c # cs))
      else match_seq r (c # cs))"
| "match_seq (Plus p # r) [] = None"
| "match_seq (Plus p # r) (c # cs) =
     (if p c then (case match_seq (Plus p # r) cs of Some rest \<Rightarrow> Some rest | None \<Rightarrow> match_seq r cs)
      else None)"

fun match_alts :: "item list list \<Rightarrow> pystr \<Rightarrow> pystr option" where
  "match_alts [] s = None"
| "match_alts (a # as) s = (case match_seq a s of Some rest \<Rightarrow> Some rest | None \<Rightarrow> match_alts as s)"

text \<open>
  \<open>pattern.sub(repl, text)\<close>: scan from the left, replace each match and go on behind
  it. \<open>repl\<close> is given the matched text. No pattern of this program matches the empty
  string, so the branch for an empty match is
  never taken; it is there to make the scan total.
\<close>

function re_sub :: "item list list \<Rightarrow> (pystr \<Rightarrow> pystr) \<Rightarrow> pystr \<Rightarrow> pystr" where
  "re_sub alts repl [] = []"
| "re_sub alts repl (c # cs) =
     (case match_alts alts (c # cs) of
        None \<Rightarrow> c # re_sub alts repl cs
      | Some rest \<Rightarrow>
          if length rest < Suc (length cs)
          then repl (take (Suc (length cs) - length rest) (c # cs)) @ re_sub alts repl rest
          else c # re_sub alts repl cs)"
  by pat_completeness auto
termination
  by (relation "measure (\<lambda>(alts, repl, s). length s)") auto

text \<open>A pattern that starts with \<open>^\<close> (no \<open>MULTILINE\<close>) can match at offset 0 only.\<close>

definition re_sub_start :: "item list \<Rightarrow> pystr \<Rightarrow> pystr \<Rightarrow> pystr" where
  "re_sub_start pat repl s =
     (case match_seq pat s of
        None \<Rightarrow> s
      | Some rest \<Rightarrow> if length rest < length s then repl @ rest else s)"

definition lit :: "string \<Rightarrow> item list" where
  "lit cs = map (\<lambda>l. One (ch l)) cs"

definition lit_ci :: "string \<Rightarrow> item list" where
  "lit_ci cs = map (\<lambda>l. One (ci l)) cs"

section \<open>Text cleaning: \<open>preprocessor.py\<close>\<close>

text \<open>
  \<^verbatim>\<open>
  _URL_RE = re.compile(r"https?://\S+|www\.\S+")
  _MENTION_RE = re.compile(r"@\w+")
  _HASHTAG_RE = re.compile(r"#(\w+)")
  _HTML_ENTITY_RE = re.compile(r"&\w+;")
  _WHITESPACE_RE = re.compile(r"\s+")
  _MARKDOWN_RE = re.compile(r"[*_~`>{}\[\]]+")
  _RT_RE = re.compile(r"^RT\s+", re.IGNORECASE)
  \<close>
\<close>

definition URL_RE :: "item list list" where
  "URL_RE =
     [lit ''http'' @ [Opt (ch CHR ''s'')] @ lit ''://'' @ [Plus (\<lambda>c. \<not> is_space c)],
      lit ''www.'' @ [Plus (\<lambda>c. \<not> is_space c)]]"

definition MENTION_RE :: "libs \<Rightarrow> item list list" where
  "MENTION_RE L = [[One (ch CHR ''@''), Plus (is_word L)]]"

definition HASHTAG_RE :: "libs \<Rightarrow> item list list" where
  "HASHTAG_RE L = [[One (ch CHR ''#''), Plus (is_word L)]]"

definition HTML_ENTITY_RE :: "libs \<Rightarrow> item list list" where
  "HTML_ENTITY_RE L = [[One (ch CHR ''&''), Plus (is_word L), One (ch CHR '';'')]]"

definition WHITESPACE_RE :: "item list list" where
  "WHITESPACE_RE = [[Plus is_space]]"

definition MARKDOWN_RE :: "item list list" where
  "MARKDOWN_RE = [[Plus (\<lambda>c. c \<in> set (ustr ''*_~`>{}[]''))]]"

definition RT_RE :: "item list" where
  "RT_RE = lit_ci ''RT'' @ [Plus is_space]"

definition VERIFIED_RE :: "item list list" where
  "VERIFIED_RE = [lit_ci ''Verified Purchase'']"

text \<open>\<open>text.strip()\<close>.\<close>

definition strip :: "pystr \<Rightarrow> pystr" where
  "strip s = rev (dropWhile is_space (rev (dropWhile is_space s)))"

text \<open>
  \<^verbatim>\<open>
  def preprocess(self, text: str, platform: str = "general") -> str:
      if not isinstance(text, str) or not text.strip():
          return ""
      text = self._HTML_ENTITY_RE.sub(" ", text)
      text = self._URL_RE.sub("", text)
      if platform == "twitter":
          text = self._RT_RE.sub("", text)
          text = self._MENTION_RE.sub("@user", text)
          text = self._HASHTAG_RE.sub(r"\1", text)  # keep hashtag word
      elif platform == "reddit":
          text = self._MARKDOWN_RE.sub("", text)
      elif platform == "amazon":
          text = re.sub(r"Verified Purchase", "", text, flags=re.IGNORECASE)
      text = self._WHITESPACE_RE.sub(" ", text).strip()
      return text
  \<close>
  Both arguments are arbitrary cells. Group 1 of the hashtag pattern is the match
  without its first character.
\<close>

definition html_step :: "libs \<Rightarrow> pystr \<Rightarrow> pystr" where
  "html_step L t = re_sub (HTML_ENTITY_RE L) (\<lambda>m. ustr '' '') t"

definition url_step :: "pystr \<Rightarrow> pystr" where
  "url_step t = re_sub URL_RE (\<lambda>m. []) t"

definition rt_step :: "pystr \<Rightarrow> pystr" where
  "rt_step t = re_sub_start RT_RE [] t"

definition mention_step :: "libs \<Rightarrow> pystr \<Rightarrow> pystr" where
  "mention_step L t = re_sub (MENTION_RE L) (\<lambda>m. ustr ''@user'') t"

definition hashtag_step :: "libs \<Rightarrow> pystr \<Rightarrow> pystr" where
  "hashtag_step L t = re_sub (HASHTAG_RE L) (\<lambda>m. tl m) t"

definition twitter_step :: "libs \<Rightarrow> pystr \<Rightarrow> pystr" where
  "twitter_step L t = hashtag_step L (mention_step L (rt_step t))"

definition platform_step :: "libs \<Rightarrow> cell \<Rightarrow> pystr \<Rightarrow> pystr" where
  "platform_step L platform t =
     (if platform = CStr (ustr ''twitter'') then twitter_step L t
      else if platform = CStr (ustr ''reddit'') then re_sub MARKDOWN_RE (\<lambda>m. []) t
      else if platform = CStr (ustr ''amazon'') then re_sub VERIFIED_RE (\<lambda>m. []) t
      else t)"

definition whitespace_step :: "pystr \<Rightarrow> pystr" where
  "whitespace_step t = strip (re_sub WHITESPACE_RE (\<lambda>m. ustr '' '') t)"

definition preprocess :: "libs \<Rightarrow> cell \<Rightarrow> cell \<Rightarrow> pystr" where
  "preprocess L text platform =
     (case text of
        CStr t \<Rightarrow>
          if strip t = [] then []
          else whitespace_step (platform_step L platform (url_step (html_step L t)))
      | _ \<Rightarrow> [])"

text \<open>
  \<^verbatim>\<open>
  def preprocess_for_roberta(self, text: str) -> str:
      tokens = []
      for token in text.split():
          if token.startswith("@") and len(token) > 1:
              token = "@user"
          elif token.startswith("http"):
              token = "http"
          tokens.append(token)
      return " ".join(tokens)
  \<close>
  \<open>split_ws cur s\<close> is \<open>text.split()\<close> with the token under construction (reversed)
  in \<open>cur\<close>.
\<close>

fun split_ws :: "pystr \<Rightarrow> pystr \<Rightarrow> pystr list" where
  "split_ws cur [] = (if cur = [] then [] else [rev cur])"
| "split_ws cur (c # cs) =
     (if is_space c then (if cur = [] then split_ws [] cs else rev cur # split_ws [] cs)
      else split_ws (c # cur) cs)"

definition py_split :: "pystr \<Rightarrow> pystr list" where
  "py_split text = split_ws [] text"

fun py_join :: "pystr \<Rightarrow> pystr list \<Rightarrow> pystr" where
  "py_join sep [] = []"
| "py_join sep [x] = x"
| "py_join sep (x # y # ys) = x @ sep @ py_join sep (y # ys)"

definition startswith :: "pystr \<Rightarrow> pystr \<Rightarrow> bool" where
  "startswith t p = (take (length p) t = p)"

text \<open>\<open>sub in t\<close> on strings.\<close>

fun py_in :: "pystr \<Rightarrow> pystr \<Rightarrow> bool" where
  "py_in sub [] = (sub = [])"
| "py_in sub (c # cs) = (startswith (c # cs) sub \<or> py_in sub cs)"

definition roberta_token :: "pystr \<Rightarrow> pystr" where
  "roberta_token token =
     (if startswith token (ustr ''@'') \<and> length token > 1 then ustr ''@user''
      else if startswith token (ustr ''http'') then ustr ''http''
      else token)"

definition preprocess_for_roberta :: "pystr \<Rightarrow> pystr" where
  "preprocess_for_roberta text = py_join (ustr '' '') (map roberta_token (py_split text))"

section \<open>Lexical scorer: \<open>vader_analyzer.py\<close>\<close>

text \<open>
  \<^verbatim>\<open>
  def _compound_to_label(compound: float) -> str:
      if compound >= 0.05:
          return "positive"
      elif compound <= -0.05:
          return "negative"
      return "neutral"
  \<close>
\<close>

definition compound_to_label :: "pyfloat \<Rightarrow> pystr" where
  "compound_to_label compound =
     (if fge compound (Fin 0.05) then ustr ''positive''
      else if fle compound (Fin (- 0.05)) then ustr ''negative''
      else ustr ''neutral'')"

text \<open>
  \<^verbatim>\<open>
  def analyze(self, text: str) -> dict:
      scores = self.analyzer.polarity_scores(text)
      return {
          "vader_compound": scores["compound"],
          "vader_positive": scores["pos"],
          "vader_negative": scores["neg"],
          "vader_neutral": scores["neu"],
          "vader_label": self._compound_to_label(scores["compound"]),
      }
  \<close>
  A \<open>dict\<close> literal is an association list in the order of the source.
\<close>

type_synonym pydict = "(pystr \<times> cell) list"

definition vader_analyze :: "(pystr \<Rightarrow> scores) \<Rightarrow> pystr \<Rightarrow> pydict" where
  "vader_analyze polarity_scores text =
     (let scores = polarity_scores text in
      [(ustr ''vader_compound'', CFloat (sc_compound scores)),
       (ustr ''vader_positive'', CFloat (sc_pos scores)),
       (ustr ''vader_negative'', CFloat (sc_neg scores)),
       (ustr ''vader_neutral'', CFloat (sc_neu scores)),
       (ustr ''vader_label'', CStr (compound_to_label (sc_compound scores)))])"

section \<open>Contextual scorer: \<open>roberta_analyzer.py\<close>\<close>

text \<open>\<open>xs[i]\<close> for a non-negative index.\<close>

definition nth_exc :: "'a list \<Rightarrow> nat \<Rightarrow> exc + 'a" where
  "nth_exc xs i = (if i < length xs then Inr (xs ! i) else Inl IndexError)"

text \<open>
  \<open>np.argmax\<close> on one row: the first index of the maximum, where a not-a-number
  counts as the maximum and ends the scan; it raises on an empty row.
\<close>

fun argmax_loop :: "pyfloat \<Rightarrow> nat \<Rightarrow> nat \<Rightarrow> pyfloat list \<Rightarrow> nat" where
  "argmax_loop mp best i [] = best"
| "argmax_loop mp best i (x # xs) =
     (if \<not> fle x mp then (if x = NaN then i else argmax_loop x i (Suc i) xs)
      else argmax_loop mp best (Suc i) xs)"

fun np_argmax :: "pyfloat list \<Rightarrow> exc + nat" where
  "np_argmax [] = Inl ValueError"
| "np_argmax (x # xs) = Inr (if x = NaN then 0 else argmax_loop x 0 1 xs)"

text \<open>
  The dictionary both entry points build from one row of probabilities (the source
  has the same literal twice):
  \<^verbatim>\<open>
      label_idx = int(np.argmax(scores))
      {
          "roberta_label": self.config.id2label[label_idx],
          "roberta_score": float(scores[label_idx]),
          "roberta_positive": float(scores[2]),
          "roberta_negative": float(scores[0]),
          "roberta_neutral": float(scores[1]),
      }
  \<close>
\<close>

definition result_dict :: "runtime \<Rightarrow> pyfloat list \<Rightarrow> exc + pydict" where
  "result_dict R scores =
     (case np_argmax scores of Inl e \<Rightarrow> Inl e | Inr label_idx \<Rightarrow>
      (case id2label R label_idx of None \<Rightarrow> Inl KeyError | Some label \<Rightarrow>
      (case nth_exc scores label_idx of Inl e \<Rightarrow> Inl e | Inr best \<Rightarrow>
      (case nth_exc scores 2 of Inl e \<Rightarrow> Inl e | Inr p \<Rightarrow>
      (case nth_exc scores 0 of Inl e \<Rightarrow> Inl e | Inr n \<Rightarrow>
      (case nth_exc scores 1 of Inl e \<Rightarrow> Inl e | Inr u \<Rightarrow>
         Inr [(ustr ''roberta_label'', CStr label),
              (ustr ''roberta_score'', CFloat best),
              (ustr ''roberta_positive'', CFloat p),
              (ustr ''roberta_negative'', CFloat n),
              (ustr ''roberta_neutral'', CFloat u)]))))))"


text \<open>
  \<open>range(start, stop, step)\<close> for a step other than zero, and the slice
  \<open>texts[i : j]\<close> for \<open>0 \<le> i \<le> j\<close>, the only slices this program takes.
\<close>

function py_range :: "int \<Rightarrow> int \<Rightarrow> int \<Rightarrow> int list" where
  "py_range i stop step =
     (if (0 < step \<and> i < stop) \<or> (step < 0 \<and> stop < i) then i # py_range (i + step) stop step
      else [])"
  by pat_completeness auto
termination
  by (relation "measure (\<lambda>(i, stop, step). nat (if 0 < step then stop - i else i - stop))") auto

definition py_slice :: "'a list \<Rightarrow> int \<Rightarrow> int \<Rightarrow> 'a list" where
  "py_slice xs i j = take (nat (j - i)) (drop (nat i) xs)"

text \<open>
  \<^verbatim>\<open>
  def analyze_batch(self, texts: list, batch_size: int = 32) -> list:
      results = []
      self.model.eval()
      with torch.no_grad():
          for i in range(0, len(texts), batch_size):
              batch = texts[i : i + batch_size]
              encoded = self.tokenizer(
                  batch, return_tensors="pt", truncation=True, padding=True, max_length=512
              )
              output = self.model(**encoded)
              batch_scores = softmax(output.logits.numpy(), axis=1)
              for scores in batch_scores:
                  label_idx = int(np.argmax(scores))
                  results.append({...})
      return results
  \<close>
  \<open>append_results\<close> is the inner loop, \<open>batch_loop\<close> the outer one over the values
  of \<open>i\<close>; \<open>range\<close> raises \<open>ValueError\<close> for a step of zero.
\<close>

fun append_results :: "runtime \<Rightarrow> pyfloat list list \<Rightarrow> pydict list \<Rightarrow> exc + pydict list" where
  "append_results R [] results = Inr results"
| "append_results R (scores # rest) results =
     (case result_dict R scores of
        Inl e \<Rightarrow> Inl e
      | Inr d \<Rightarrow> append_results R rest (results @ [d]))"

fun batch_loop :: "runtime \<Rightarrow> pystr list \<Rightarrow> int \<Rightarrow> int list \<Rightarrow> pydict list \<Rightarrow> exc + pydict list" where
  "batch_loop R texts batch_size [] results = Inr results"
| "batch_loop R texts batch_size (i # ks) results =
     (case forwardB R (py_slice texts i (i + batch_size)) of
        Inl e \<Rightarrow> Inl e
      | Inr logits \<Rightarrow>
          (case append_results R (map (softmax R) logits) results of
             Inl e \<Rightarrow> Inl e
           | Inr results' \<Rightarrow> batch_loop R texts batch_size ks results'))"

definition roberta_analyze_batch :: "runtime \<Rightarrow> pystr list \<Rightarrow> int \<Rightarrow> exc + pydict list" where
  "roberta_analyze_batch R texts batch_size =
     (if batch_size = 0 then Inl ValueError
      else batch_loop R texts batch_size (py_range 0 (int (length texts)) batch_size) [])"

section \<open>Pipeline: \<open>sentiment_pipeline.py\<close>\<close>

text \<open>
  The object state of \<open>SentimentPipeline\<close>: the lexical scorer (its
  \<open>polarity_scores\<close>) and the contextual scorer, \<open>None\<close> when it is not engaged or
  could not be built. The preprocessor has no state. What \<open>logger\<close> receives is kept
  as a list of records.
\<close>

record pipeline =
  vader :: "pystr \<Rightarrow> scores"
  roberta :: "runtime option"

datatype logrec = LogInfo pystr | LogWarning pystr exc

definition ROBERTA_MODEL :: pystr where
  "ROBERTA_MODEL = ustr ''cardiffnlp/twitter-roberta-base-sentiment-latest''"

text \<open>
  \<^verbatim>\<open>
  def __init__(self, model_name: str = ROBERTA_MODEL):
      from transformers import AutoModelForSequenceClassification, AutoTokenizer, AutoConfig
      logger.info(f"Loading RoBERTa model: {model_name}")
      self.tokenizer = AutoTokenizer.from_pretrained(model_name)
      self.model = AutoModelForSequenceClassification.from_pretrained(model_name)
      self.config = AutoConfig.from_pretrained(model_name)
      self.model.eval()
      logger.info("RoBERTa model loaded successfully")
  \<close>
  The import and the three loads are the library's; each may raise.
\<close>

definition roberta_init :: "libs \<Rightarrow> pystr \<Rightarrow> logrec list \<Rightarrow> (exc + runtime) \<times> logrec list" where
  "roberta_init L model_name lg =
     (case transformers_import L of
        Some e \<Rightarrow> (Inl e, lg)
      | None \<Rightarrow>
          (let lg1 = lg @ [LogInfo (ustr ''Loading RoBERTa model: '' @ model_name)] in
           case from_pretrained L model_name of
             Inl e \<Rightarrow> (Inl e, lg1)
           | Inr R \<Rightarrow> (Inr R, lg1 @ [LogInfo (ustr ''RoBERTa model loaded successfully'')])))"

text \<open>
  \<^verbatim>\<open>
  def __init__(self, use_roberta: bool = True):
      self.preprocessor = TextPreprocessor()
      self.vader = VaderAnalyzer()
      self.roberta = None
      if use_roberta:
          try:
              self.roberta = RobertaAnalyzer()
          except Exception as e:
              logger.warning(f"RoBERTa unavailable, using VADER only: {e}")
  \<close>
\<close>

definition pipeline_init :: "libs \<Rightarrow> bool \<Rightarrow> logrec list \<Rightarrow> (exc + pipeline) \<times> logrec list" where
  "pipeline_init L use_roberta lg =
     (case vader_ctor L of
        Inl e \<Rightarrow> (Inl e, lg)
      | Inr v \<Rightarrow>
          if use_roberta then
            (case roberta_init L ROBERTA_MODEL lg of
               (Inr R, lg1) \<Rightarrow> (Inr \<lparr>vader = v, roberta = Some R\<rparr>, lg1)
             | (Inl e, lg1) \<Rightarrow>
                 if is_Exception e
                 then (Inr \<lparr>vader = v, roberta = None\<rparr>,
                       lg1 @ [LogWarning (ustr ''RoBERTa unavailable, using VADER only: '') e])
                 else (Inl e, lg1))
          else (Inr \<lparr>vader = v, roberta = None\<rparr>, lg))"

text \<open>
  \<^verbatim>\<open>
  def _ensemble_label(self, row) -> str:
      if self.roberta and "roberta_label" in row and pd.notna(row.get("roberta_label")):
          if row["vader_label"] == row["roberta_label"]:
              return row["vader_label"]
          return row["roberta_label"]  # RoBERTa wins on disagreement
      return row["vader_label"]
  \<close>
\<close>

definition ensemble_label :: "pipeline \<Rightarrow> row \<Rightarrow> exc + cell" where
  "ensemble_label self row =
     (if roberta self \<noteq> None \<and> in_row (ustr ''roberta_label'') row \<and>
         notna (row_get row (ustr ''roberta_label'') CNone)
      then
        (case row_item row (ustr ''vader_label'') of Inl e \<Rightarrow> Inl e | Inr v \<Rightarrow>
         (case row_item row (ustr ''roberta_label'') of Inl e \<Rightarrow> Inl e | Inr r \<Rightarrow>
            if v = r then row_item row (ustr ''vader_label'')
            else row_item row (ustr ''roberta_label'')))
      else row_item row (ustr ''vader_label''))"

text \<open>
  \<^verbatim>\<open>
  def _ensemble_score(self, row) -> float:
      vader_norm = (row["vader_compound"] + 1) / 2
      if self.roberta and "roberta_positive" in row and pd.notna(row.get("roberta_positive")):
          roberta_score = row["roberta_positive"] - row["roberta_negative"]
          roberta_norm = (roberta_score + 1) / 2
          return 0.3 * vader_norm + 0.7 * roberta_norm
      return vader_norm
  \<close>
\<close>

definition ensemble_score :: "pipeline \<Rightarrow> row \<Rightarrow> exc + cell" where
  "ensemble_score self row =
     (case row_item row (ustr ''vader_compound'') of Inl e \<Rightarrow> Inl e | Inr vc \<Rightarrow>
      (case cell_add vc (Fin 1) of Inl e \<Rightarrow> Inl e | Inr vc1 \<Rightarrow>
      (case cell_half vc1 of Inl e \<Rightarrow> Inl e | Inr vader_norm \<Rightarrow>
         if roberta self \<noteq> None \<and> in_row (ustr ''roberta_positive'') row \<and>
            notna (row_get row (ustr ''roberta_positive'') CNone)
         then
           (case row_item row (ustr ''roberta_positive'') of Inl e \<Rightarrow> Inl e | Inr rp \<Rightarrow>
            (case row_item row (ustr ''roberta_negative'') of Inl e \<Rightarrow> Inl e | Inr rn \<Rightarrow>
            (case cell_sub rp rn of Inl e \<Rightarrow> Inl e | Inr roberta_score \<Rightarrow>
            (case cell_add roberta_score (Fin 1) of Inl e \<Rightarrow> Inl e | Inr rs1 \<Rightarrow>
            (case cell_half rs1 of Inl e \<Rightarrow> Inl e | Inr roberta_norm \<Rightarrow>
            (case cell_scale (Fin 0.3) vader_norm of Inl e \<Rightarrow> Inl e | Inr a \<Rightarrow>
            (case cell_scale (Fin 0.7) roberta_norm of Inl e \<Rightarrow> Inl e | Inr b \<Rightarrow>
               cell_plus a b)))))))
         else Inr vader_norm)))"

subsection \<open>Data frames as objects\<close>

text \<open>
  A \<open>DataFrame\<close> is an object on the heap, named by its address (its index in the
  list of live frames), and holds a list of rows. An action runs on the state and
  returns a value or raises; the state survives a raise. The row-wise
  \<open>df.apply(f, axis=1)\<close> is modelled for a frame with at least one row; on a frame
  without rows pandas takes a path of its own, which is not modelled.
\<close>

type_synonym frame = "row list"

record state =
  heap :: "frame list"
  logs :: "logrec list"

type_synonym 'a action = "state \<Rightarrow> (exc + 'a) \<times> state"

definition return :: "'a \<Rightarrow> 'a action" where
  "return a s = (Inr a, s)"

definition bind :: "'a action \<Rightarrow> ('a \<Rightarrow> 'b action) \<Rightarrow> 'b action" where
  "bind m f s = (case m s of (Inl e, s') \<Rightarrow> (Inl e, s') | (Inr a, s') \<Rightarrow> f a s')"

definition lift :: "exc + 'a \<Rightarrow> 'a action" where
  "lift r s = (r, s)"

definition log_info :: "pystr \<Rightarrow> unit action" where
  "log_info msg s = (Inr (), s\<lparr>logs := logs s @ [LogInfo msg]\<rparr>)"

text \<open>\<open>df.copy()\<close>: a new object with the same rows.\<close>

definition df_copy :: "nat \<Rightarrow> nat action" where
  "df_copy df s =
     (if df < length (heap s)
      then (Inr (length (heap s)), s\<lparr>heap := heap s @ [heap s ! df]\<rparr>)
      else (Inl AttributeError, s))"

definition df_rows :: "nat \<Rightarrow> frame action" where
  "df_rows df s = (if df < length (heap s) then (Inr (heap s ! df), s) else (Inl AttributeError, s))"

fun map_exc :: "('a \<Rightarrow> exc + 'b) \<Rightarrow> 'a list \<Rightarrow> exc + 'b list" where
  "map_exc f [] = Inr []"
| "map_exc f (x # xs) =
     (case f x of
        Inl e \<Rightarrow> Inl e
      | Inr y \<Rightarrow> (case map_exc f xs of Inl e \<Rightarrow> Inl e | Inr ys \<Rightarrow> Inr (y # ys)))"

text \<open>\<open>df.apply(f, axis=1)\<close>: \<open>f\<close> on every row, in order.\<close>

definition df_apply :: "nat \<Rightarrow> (row \<Rightarrow> exc + cell) \<Rightarrow> cell list action" where
  "df_apply df f = bind (df_rows df) (\<lambda>rows. lift (map_exc f rows))"

text \<open>\<open>df[col]\<close>: the column's values; \<open>KeyError\<close> when there is no such column.\<close>

definition df_getcol :: "nat \<Rightarrow> pystr \<Rightarrow> cell list action" where
  "df_getcol df col = bind (df_rows df) (\<lambda>rows. lift (map_exc (\<lambda>r. row_item r col) rows))"

text \<open>
  \<open>df[col] = values\<close>: mutates the object \<open>df\<close>; \<open>ValueError\<close> when the number of values
  is not the number of rows.
\<close>

definition set_col :: "pystr \<Rightarrow> cell list \<Rightarrow> frame \<Rightarrow> frame" where
  "set_col col vals rows = map (\<lambda>(r, v). r(col \<mapsto> v)) (zip rows vals)"

definition df_setcol :: "nat \<Rightarrow> pystr \<Rightarrow> cell list \<Rightarrow> unit action" where
  "df_setcol df col vals s =
     (if df < length (heap s) then
        (if length vals = length (heap s ! df)
         then (Inr (), s\<lparr>heap := (heap s)[df := set_col col vals (heap s ! df)]\<rparr>)
         else (Inl ValueError, s))
      else (Inl AttributeError, s))"

text \<open>
  \<^verbatim>\<open>
  vader_df = pd.DataFrame(vader_results)
  for col in vader_df.columns:
      df[col] = vader_df[col].values
  \<close>
  and the same for \<open>roberta_results\<close>. Every dictionary of the list comes from one
  literal, so the columns are the keys of the first one; a key that a dictionary
  lacks would give a not-a-number.
\<close>

definition dict_columns :: "pydict list \<Rightarrow> pystr list" where
  "dict_columns dicts = (case dicts of [] \<Rightarrow> [] | d # _ \<Rightarrow> map fst d)"

definition dict_column :: "pydict list \<Rightarrow> pystr \<Rightarrow> cell list" where
  "dict_column dicts col =
     map (\<lambda>d. case map_of d col of None \<Rightarrow> CFloat NaN | Some v \<Rightarrow> v) dicts"

fun attach :: "nat \<Rightarrow> pydict list \<Rightarrow> pystr list \<Rightarrow> unit action" where
  "attach df dicts [] = return ()"
| "attach df dicts (col # cols) =
     bind (df_setcol df col (dict_column dicts col)) (\<lambda>_. attach df dicts cols)"

text \<open>A cell used as a string (\<open>text.split()\<close>, \<open>polarity_scores(text)\<close>).\<close>

fun as_str :: "cell \<Rightarrow> exc + pystr" where
  "as_str (CStr s) = Inr s"
| "as_str _ = Inl AttributeError"

text \<open>
  \<^verbatim>\<open>
  def analyze_dataframe(self, df: pd.DataFrame, show_progress: bool = True) -> pd.DataFrame:
      df = df.copy()
      logger.info("Step 1/3: Preprocessing text...")
      df["clean_text"] = df.apply(
          lambda r: self.preprocessor.preprocess(str(r.get("text", "")), str(r.get("platform", ""))),
          axis=1,
      )
      logger.info("Step 2/3: Running VADER analysis...")
      iterator = tqdm(df["clean_text"], desc="VADER") if show_progress else df["clean_text"]
      vader_results = [self.vader.analyze(text) for text in iterator]
      vader_df = pd.DataFrame(vader_results)
      for col in vader_df.columns:
          df[col] = vader_df[col].values
      if self.roberta:
          logger.info("Step 3/3: Running RoBERTa analysis...")
          roberta_texts = df["clean_text"].apply(self.preprocessor.preprocess_for_roberta).tolist()
          roberta_results = self.roberta.analyze_batch(roberta_texts)
          roberta_df = pd.DataFrame(roberta_results)
          for col in roberta_df.columns:
              df[col] = roberta_df[col].values
      else:
          logger.info("Step 3/3: Skipping RoBERTa (not available)")
      df["final_label"] = df.apply(self._ensemble_label, axis=1)
      df["final_score"] = df.apply(self._ensemble_score, axis=1)
      return df
  \<close>
  \<open>df0\<close> is the caller's frame, \<open>df\<close> the local variable after the first line.
  \<open>tqdm\<close> only draws a progress bar and yields the same values.
\<close>

definition clean_row :: "libs \<Rightarrow> row \<Rightarrow> exc + cell" where
  "clean_row L r =
     Inr (CStr (preprocess L (CStr (py_str L (row_get r (ustr ''text'') (CStr []))))
                             (CStr (py_str L (row_get r (ustr ''platform'') (CStr []))))))"

definition roberta_step :: "libs \<Rightarrow> runtime \<Rightarrow> nat \<Rightarrow> unit action" where
  "roberta_step L R df =
     bind (log_info (ustr ''Step 3/3: Running RoBERTa analysis...'')) (\<lambda>_.
     bind (df_getcol df (ustr ''clean_text'')) (\<lambda>texts.
     bind (lift (map_exc (\<lambda>t. case as_str t of Inl e \<Rightarrow> Inl e
                                | Inr s \<Rightarrow> Inr (preprocess_for_roberta s)) texts)) (\<lambda>roberta_texts.
     bind (lift (roberta_analyze_batch R roberta_texts 32)) (\<lambda>roberta_results.
     attach df roberta_results (dict_columns roberta_results)))))"

definition analyze_dataframe :: "libs \<Rightarrow> pipeline \<Rightarrow> nat \<Rightarrow> bool \<Rightarrow> nat action" where
  "analyze_dataframe L self df0 show_progress =
     bind (df_copy df0) (\<lambda>df.
     bind (log_info (ustr ''Step 1/3: Preprocessing text...'')) (\<lambda>_.
     bind (df_apply df (clean_row L)) (\<lambda>clean.
     bind (df_setcol df (ustr ''clean_text'') clean) (\<lambda>_.
     bind (log_info (ustr ''Step 2/3: Running VADER analysis...'')) (\<lambda>_.
     bind (df_getcol df (ustr ''clean_text'')) (\<lambda>texts.
     bind (lift (map_exc (\<lambda>t. case as_str t of Inl e \<Rightarrow> Inl e
                                | Inr s \<Rightarrow> Inr (vader_analyze (vader self) s)) texts)) (\<lambda>vader_results.
     bind (attach df vader_results (dict_columns vader_results)) (\<lambda>_.
     bind (case roberta self of
             Some R \<Rightarrow> roberta_step L R df
           | None \<Rightarrow> log_info (ustr ''Step 3/3: Skipping RoBERTa (not available)'')) (\<lambda>_.
     bind (df_apply df (ensemble_label self)) (\<lambda>labels.
     bind (df_setcol df (ustr ''final_label'') labels) (\<lambda>_.
     bind (df_apply df (ensemble_score self)) (\<lambda>final_scores.
     bind (df_setcol df (ustr ''final_score'') final_scores) (\<lambda>_.
     return df)))))))))))))"

section \<open>Notions of the specification\<close>

text \<open>
  The contextual result of a record in a run of the pipeline: what the contextual
  scorer of this run has attached to the record. There is none when the pipeline has
  no contextual scorer, whatever columns the caller's frame came with, and none when
  the cell is missing or null.
\<close>

definition contextual_label :: "pipeline \<Rightarrow> row \<Rightarrow> cell option" where
  "contextual_label self row =
     (case roberta self of
        None \<Rightarrow> None
      | Some R \<Rightarrow> (case row (ustr ''roberta_label'') of
                    None \<Rightarrow> None
                  | Some c \<Rightarrow> if notna c then Some c else None))"

definition contextual_positive :: "pipeline \<Rightarrow> row \<Rightarrow> cell option" where
  "contextual_positive self row =
     (case roberta self of
        None \<Rightarrow> None
      | Some R \<Rightarrow> (case row (ustr ''roberta_positive'') of
                    None \<Rightarrow> None
                  | Some c \<Rightarrow> if notna c then Some c else None))"



text \<open>
  A text without a mention (\<open>a = 64\<close>, the at sign) or a hashtag (\<open>a = 35\<close>, the
  hash sign): the sign is nowhere followed by a word character. A text with a retweet
  marker: it starts with \<open>RT\<close> in either case and a white-space character.
\<close>

definition tag_free :: "libs \<Rightarrow> nat \<Rightarrow> pystr \<Rightarrow> bool" where
  "tag_free L a t = (\<nexists>x c y. t = x @ a # c # y \<and> is_word L c)"

definition rt_marked :: "pystr \<Rightarrow> bool" where
  "rt_marked s =
     (\<exists>r k c s'. s = r # k # c # s' \<and> (r = 82 \<or> r = 114) \<and> (k = 84 \<or> k = 116) \<and> is_space c)"




text \<open>
  The columns the pipeline derives, those of the contextual scorer among them, and
  frames that agree outside a set of columns.
\<close>

definition derived_columns :: "pystr set" where
  "derived_columns =
     ustr ` {''clean_text'', ''vader_compound'', ''vader_positive'', ''vader_negative'',
             ''vader_neutral'', ''vader_label'', ''roberta_label'', ''roberta_score'',
             ''roberta_positive'', ''roberta_negative'', ''roberta_neutral'',
             ''final_label'', ''final_score''}"

definition roberta_columns :: "pystr set" where
  "roberta_columns =
     ustr ` {''roberta_label'', ''roberta_score'', ''roberta_positive'', ''roberta_negative'',
             ''roberta_neutral''}"

definition same_outside :: "pystr set \<Rightarrow> frame \<Rightarrow> frame \<Rightarrow> bool" where
  "same_outside K f f' =
     (length f' = length f \<and> (\<forall>i < length f. \<forall>k. k \<notin> K \<longrightarrow> (f' ! i) k = (f ! i) k))"

text \<open>
  The clean text of a record, and the record as a lexical-only run enriches it.
\<close>

definition clean_text_of :: "libs \<Rightarrow> row \<Rightarrow> pystr" where
  "clean_text_of L r =
     preprocess L (CStr (py_str L (row_get r (ustr ''text'') (CStr []))))
                  (CStr (py_str L (row_get r (ustr ''platform'') (CStr []))))"

definition lexical_row :: "libs \<Rightarrow> pipeline \<Rightarrow> row \<Rightarrow> row" where
  "lexical_row L self r =
     (let clean = clean_text_of L r;
          c = sc_compound (vader self clean);
          label = CStr (compound_to_label c)
      in r(ustr ''clean_text'' \<mapsto> CStr clean,
           ustr ''vader_compound'' \<mapsto> CFloat c,
           ustr ''vader_positive'' \<mapsto> CFloat (sc_pos (vader self clean)),
           ustr ''vader_negative'' \<mapsto> CFloat (sc_neg (vader self clean)),
           ustr ''vader_neutral'' \<mapsto> CFloat (sc_neu (vader self clean)),
           ustr ''vader_label'' \<mapsto> label,
           ustr ''final_label'' \<mapsto> label,
           ustr ''final_score'' \<mapsto> CFloat (fhalf (fadd c (Fin 1)))))"

text \<open>
  For reasoning about actions: \<open>triple I m Q\<close> says that \<open>m\<close> keeps the state
  property \<open>I\<close>, also when it raises, and that a value it returns satisfies \<open>Q\<close>.
  \<open>copy_inv s0 df0\<close> is the state property that holds after the first line of
  \<open>analyze_dataframe\<close>, started in \<open>s0\<close> on the frame \<open>df0\<close>: one frame has been
  allocated, every frame of \<open>s0\<close> is as it was, and the new frame agrees with the
  caller's outside the derived columns.
\<close>

definition copy_inv :: "state \<Rightarrow> nat \<Rightarrow> state \<Rightarrow> bool" where
  "copy_inv s0 df0 s =
     (length (heap s) = Suc (length (heap s0)) \<and>
      (\<forall>a < length (heap s0). heap s ! a = heap s0 ! a) \<and>
      same_outside derived_columns (heap s0 ! df0) (heap s ! length (heap s0)))"

definition triple :: "(state \<Rightarrow> bool) \<Rightarrow> 'a action \<Rightarrow> ('a \<Rightarrow> bool) \<Rightarrow> bool" where
  "triple I m Q = (\<forall>s. I s \<longrightarrow> (case m s of (Inl e, s') \<Rightarrow> I s' | (Inr a, s') \<Rightarrow> I s' \<and> Q a))"

section \<open>Sample data\<close>

text \<open>Concrete libraries, scorers and rows, on which the theorems below are run.\<close>

definition sample_polarity :: "pystr \<Rightarrow> scores" where
  "sample_polarity t =
     (if t = ustr ''good'' then \<lparr>sc_compound = Fin 0.5, sc_pos = Fin 1, sc_neg = Fin 0, sc_neu = Fin 0\<rparr>
      else if t = ustr ''bad'' then \<lparr>sc_compound = Fin (- 0.5), sc_pos = Fin 0, sc_neg = Fin 1, sc_neu = Fin 0\<rparr>
      else \<lparr>sc_compound = Fin 0, sc_pos = Fin 0, sc_neg = Fin 0, sc_neu = Fin 1\<rparr>)"

definition sample_logits :: "pystr \<Rightarrow> pyfloat list" where
  "sample_logits t =
     (if t = ustr ''good'' then [Fin 0.1, Fin 0.2, Fin 0.7]
      else if t = ustr ''bad'' then [Fin 0.7, Fin 0.2, Fin 0.1]
      else [Fin 0.2, Fin 0.6, Fin 0.2])"

definition sample_runtime :: runtime where
  "sample_runtime =
     \<lparr>forward1 = (\<lambda>t. Inr [sample_logits t]),
      forwardB = (\<lambda>b. Inr (map sample_logits b)),
      softmax = (\<lambda>xs. xs),
      id2label = [0 \<mapsto> ustr ''negative'', 1 \<mapsto> ustr ''neutral'', 2 \<mapsto> ustr ''positive'']\<rparr>"

definition sample_libs :: libs where
  "sample_libs =
     \<lparr>uni_alnum = (\<lambda>c. False),
      float_repr = (\<lambda>x. ustr ''0.5''),
      vader_ctor = Inr sample_polarity,
      transformers_import = None,
      from_pretrained = (\<lambda>name. Inl (Failure (ustr ''no network'')))\<rparr>"

definition lexical_only :: pipeline where
  "lexical_only = \<lparr>vader = sample_polarity, roberta = None\<rparr>"

definition with_contextual :: pipeline where
  "with_contextual = \<lparr>vader = sample_polarity, roberta = Some sample_runtime\<rparr>"

definition sample_row :: row where
  "sample_row =
     [ustr ''vader_label'' \<mapsto> CStr (ustr ''positive''),
      ustr ''vader_compound'' \<mapsto> CFloat (Fin 0.5),
      ustr ''roberta_label'' \<mapsto> CStr (ustr ''negative''),
      ustr ''roberta_positive'' \<mapsto> CFloat (Fin 0.1),
      ustr ''roberta_negative'' \<mapsto> CFloat (Fin 0.7)]"

definition sample_state :: state where
  "sample_state =
     \<lparr>heap = [[[ustr ''text'' \<mapsto> CStr (ustr ''good''), ustr ''platform'' \<mapsto> CStr (ustr ''twitter'')],
               [ustr ''text'' \<mapsto> CNone, ustr ''platform'' \<mapsto> CStr (ustr ''twitter'')]]],
      logs = []\<rparr>"

section \<open>Properties\<close>


subsection \<open>Helper facts\<close>

lemma ustr_eq_iff [simp]: "(ustr a = ustr b) = (a = b)"
  unfolding ustr_def by (simp add: inj_map_eq_map inj_def)

lemma all_dropWhile: "(\<forall>x \<in> set (dropWhile P s). P x) \<longleftrightarrow> (\<forall>c \<in> set s. P c)"
  by (induction s) auto

lemma strip_Nil_iff: "strip s = [] \<longleftrightarrow> (\<forall>c \<in> set s. is_space c)"
  by (simp add: strip_def all_dropWhile)


lemma map_exc_set:
  "map_exc f xs = Inr ys \<Longrightarrow> y \<in> set ys \<Longrightarrow> \<exists>x. f x = Inr y"
  by (induction xs arbitrary: ys) (auto split: sum.splits)

lemma map_exc_total: "map_exc (\<lambda>x. Inr (g x)) xs = Inr (map g xs)"
  by (induction xs) simp_all

lemma map_exc_map: "map_exc f (map h xs) = map_exc (\<lambda>x. f (h x)) xs"
  by (induction xs) (simp_all cong: sum.case_cong)

lemma set_col_Nil: "set_col c vs [] = []"
  by (simp add: set_col_def)

lemma set_col_map: "set_col c (map g f) (map h f) = map (\<lambda>r. (h r)(c \<mapsto> g r)) f"
  by (induction f) (auto simp: set_col_def fun_upd_def)

lemma set_col_map_id: "set_col c (map g f) f = map (\<lambda>r. r(c \<mapsto> g r)) f"
  using set_col_map [of c g f "\<lambda>r. r"] by simp

lemma is_word_ascii:
  "c < 128 \<Longrightarrow> is_word L c = ((48 \<le> c \<and> c \<le> 57) \<or> (65 \<le> c \<and> c \<le> 90) \<or> c = 95 \<or> (97 \<le> c \<and> c \<le> 122))"
  by (simp add: is_word_def)

text \<open>The definitions to unfold when a cleaning step runs on a literal.\<close>

lemmas regex_eval = html_step_def url_step_def twitter_step_def rt_step_def mention_step_def
  hashtag_step_def platform_step_def
  whitespace_step_def strip_def HTML_ENTITY_RE_def URL_RE_def MENTION_RE_def HASHTAG_RE_def
  WHITESPACE_RE_def MARKDOWN_RE_def RT_RE_def VERIFIED_RE_def lit_def lit_ci_def ch_def ci_def
  ascii_lower_def re_sub_start_def is_space_def is_word_ascii ustr_def

lemma preprocess_None: "preprocess L (CStr (ustr ''None'')) platform = ustr ''None''"
  by (simp add: preprocess_def regex_eval)

lemma preprocess_good: "preprocess L (CStr (ustr ''good'')) (CStr (ustr ''twitter'')) = ustr ''good''"
  by (simp add: preprocess_def regex_eval)

subsection \<open>Ensemble resolver\<close>

text \<open>
  C1. The ensemble label of a record that carries a lexical label: without a
  contextual result it is the lexical label; with a contextual result that equals the
  lexical label it is that shared label; with a contextual result that differs it is
  the contextual label and not the lexical one, whatever the two labels are.
\<close>

theorem ensemble_label_rule:
  assumes "row (ustr ''vader_label'') = Some lexical"
  shows "(contextual_label self row = None \<longrightarrow> ensemble_label self row = Inr lexical) \<and>
         (\<forall>contextual. contextual_label self row = Some contextual \<longrightarrow>
            (contextual = lexical \<longrightarrow> ensemble_label self row = Inr lexical) \<and>
            (contextual \<noteq> lexical \<longrightarrow>
               ensemble_label self row = Inr contextual \<and> ensemble_label self row \<noteq> Inr lexical))"
  using assms
  by (auto simp: ensemble_label_def contextual_label_def row_item_def row_get_def in_row_def
           split: option.splits if_splits)

theorem ensemble_label_rule_witness:
  "sample_row (ustr ''vader_label'') = Some (CStr (ustr ''positive'')) \<and>
   contextual_label lexical_only sample_row = None \<and>
   ensemble_label lexical_only sample_row = Inr (CStr (ustr ''positive'')) \<and>
   contextual_label with_contextual sample_row = Some (CStr (ustr ''negative'')) \<and>
   ensemble_label with_contextual sample_row = Inr (CStr (ustr ''negative''))"
proof -
  have lex: "sample_row (ustr ''vader_label'') = Some (CStr (ustr ''positive''))"
    by (simp add: sample_row_def)
  have absent: "contextual_label lexical_only sample_row = None"
    by (simp add: contextual_label_def lexical_only_def)
  have present: "contextual_label with_contextual sample_row = Some (CStr (ustr ''negative''))"
    by (simp add: contextual_label_def with_contextual_def sample_row_def)
  from ensemble_label_rule [where row = sample_row and self = lexical_only, OF lex] absent
  have "ensemble_label lexical_only sample_row = Inr (CStr (ustr ''positive''))"
    by simp
  moreover from ensemble_label_rule [where row = sample_row and self = with_contextual, OF lex] present
  have "ensemble_label with_contextual sample_row = Inr (CStr (ustr ''negative''))"
    by simp
  ultimately show ?thesis using lex absent present by simp
qed

text \<open>
  C2. The ensemble score of a record whose lexical compound is \<open>c\<close>: without a
  contextual result it is \<open>(c + 1) / 2\<close>; with contextual probabilities \<open>p\<close> (positive)
  and \<open>n\<close> (negative) it is \<open>0.3 * ((c + 1) / 2) + 0.7 * ((p - n + 1) / 2)\<close>.
\<close>

theorem ensemble_score_rule:
  assumes "row (ustr ''vader_compound'') = Some (CFloat (Fin c))"
  shows "(contextual_positive self row = None \<longrightarrow>
            ensemble_score self row = Inr (CFloat (Fin ((c + 1) / 2)))) \<and>
         (\<forall>p n. contextual_positive self row = Some (CFloat (Fin p)) \<and>
                 row (ustr ''roberta_negative'') = Some (CFloat (Fin n)) \<longrightarrow>
            ensemble_score self row =
              Inr (CFloat (Fin (0.3 * ((c + 1) / 2) + 0.7 * ((p - n + 1) / 2)))))"
  using assms
  by (auto simp: ensemble_score_def contextual_positive_def row_item_def row_get_def in_row_def
           split: option.splits if_splits)

theorem ensemble_score_rule_witness:
  "sample_row (ustr ''vader_compound'') = Some (CFloat (Fin 0.5)) \<and>
   contextual_positive lexical_only sample_row = None \<and>
   ensemble_score lexical_only sample_row = Inr (CFloat (Fin 0.75)) \<and>
   contextual_positive with_contextual sample_row = Some (CFloat (Fin 0.1)) \<and>
   sample_row (ustr ''roberta_negative'') = Some (CFloat (Fin 0.7)) \<and>
   ensemble_score with_contextual sample_row = Inr (CFloat (Fin 0.365))"
proof -
  have c: "sample_row (ustr ''vader_compound'') = Some (CFloat (Fin 0.5))"
    by (simp add: sample_row_def)
  have n: "sample_row (ustr ''roberta_negative'') = Some (CFloat (Fin 0.7))"
    by (simp add: sample_row_def)
  have absent: "contextual_positive lexical_only sample_row = None"
    by (simp add: contextual_positive_def lexical_only_def)
  have present: "contextual_positive with_contextual sample_row = Some (CFloat (Fin 0.1))"
    by (simp add: contextual_positive_def with_contextual_def sample_row_def)
  from ensemble_score_rule [where row = sample_row and self = lexical_only, OF c] absent
  have "ensemble_score lexical_only sample_row = Inr (CFloat (Fin 0.75))"
    by simp
  moreover have "ensemble_score with_contextual sample_row = Inr (CFloat (Fin 0.365))"
  proof -
    from ensemble_score_rule [where row = sample_row and self = with_contextual, OF c]
    have "contextual_positive with_contextual sample_row = Some (CFloat (Fin 0.1)) \<and>
          sample_row (ustr ''roberta_negative'') = Some (CFloat (Fin 0.7)) \<longrightarrow>
          ensemble_score with_contextual sample_row =
            Inr (CFloat (Fin (0.3 * ((0.5 + 1) / 2) + 0.7 * ((0.1 - 0.7 + 1) / 2))))"
      by blast
    with present n show ?thesis by simp
  qed
  ultimately show ?thesis using c n absent present by simp
qed

subsection \<open>Text cleaning\<close>

text \<open>
  C4. On a value that is not a string, and on a string that consists of white space
  only (the empty string included), \<open>preprocess\<close> returns the empty string, for every
  platform value. \<open>preprocess\<close> is a total function into strings: none of its
  statements can raise.
\<close>

theorem preprocess_blank_or_nonstring:
  "(\<forall>s. input \<noteq> CStr s) \<or> (\<exists>s. input = CStr s \<and> (\<forall>c \<in> set s. is_space c)) \<Longrightarrow>
   preprocess L input platform = []"
  by (cases input) (auto simp: preprocess_def strip_Nil_iff)

theorem preprocess_blank_or_nonstring_witness:
  "preprocess sample_libs CNone (CStr (ustr ''twitter'')) = [] \<and>
   preprocess sample_libs (CFloat NaN) CNone = [] \<and>
   list_all is_space (ustr ''  '') \<and>
   preprocess sample_libs (CStr (ustr ''  '')) (CStr (ustr ''reddit'')) = []"
proof -
  have blank: "\<forall>c \<in> set (ustr ''  ''). is_space c"
    by (simp add: ustr_def is_space_def)
  have "preprocess sample_libs CNone (CStr (ustr ''twitter'')) = []"
    using preprocess_blank_or_nonstring [of CNone] by simp
  moreover have "preprocess sample_libs (CFloat NaN) CNone = []"
    using preprocess_blank_or_nonstring [of "CFloat NaN"] by simp
  moreover have "preprocess sample_libs (CStr (ustr ''  '')) (CStr (ustr ''reddit'')) = []"
    using preprocess_blank_or_nonstring [of "CStr (ustr ''  '')"] blank by simp
  ultimately show ?thesis using blank by (simp add: list_all_iff)
qed

subsection \<open>Text cleaning: the substitutions\<close>

lemma match_plus: "match_seq [Plus p] s = (if s \<noteq> [] \<and> p (hd s) then Some (dropWhile p s) else None)"
proof (induction s)
  case Nil
  show ?case by simp
next
  case (Cons c cs)
  show ?case
  proof (cases "p c")
    case True
    with Cons show ?thesis by (cases cs) auto
  next
    case False
    then show ?thesis by simp
  qed
qed



lemma re_sub_prefix:
  "(\<And>u v. pre = v @ u \<Longrightarrow> u \<noteq> [] \<Longrightarrow> match_alts alts (u @ t) = None) \<Longrightarrow>
   re_sub alts repl (pre @ t) = pre @ re_sub alts repl t"
proof (induction pre)
  case Nil
  show ?case by simp
next
  case (Cons c pre)
  have here: "match_alts alts ((c # pre) @ t) = None"
    using Cons.prems [of "[]" "c # pre"] by simp
  have "re_sub alts repl (pre @ t) = pre @ re_sub alts repl t"
  proof (rule Cons.IH)
    fix u v assume "pre = v @ u" "u \<noteq> []"
    then show "match_alts alts (u @ t) = None"
      using Cons.prems [of "c # v" u] by simp
  qed
  with here show ?case by simp
qed

lemma re_sub_hit:
  assumes "match_alts alts (m @ post) = Some post" "m \<noteq> []"
  shows "re_sub alts repl (m @ post) = repl m @ re_sub alts repl post"
proof -
  from assms(2) obtain c cs where m: "m = c # cs" by (cases m) auto
  with assms(1) show ?thesis by simp
qed

lemma re_sub_no_match:
  "(\<And>u v. t = v @ u \<Longrightarrow> u \<noteq> [] \<Longrightarrow> match_alts alts u = None) \<Longrightarrow> re_sub alts repl t = t"
  using re_sub_prefix [of t alts "[]" repl] by simp

lemma not_word_punct:
  "\<not> is_word L 38" "\<not> is_word L 59" "\<not> is_word L 64" "\<not> is_word L 35"
  by (simp_all add: is_word_def)

lemma dropWhile_run:
  assumes "\<forall>c \<in> set w. P c" "post = [] \<or> \<not> P (hd post)"
  shows "dropWhile P (w @ post) = post"
proof -
  from assms(1) have "dropWhile P (w @ post) = dropWhile P post"
    by (simp add: dropWhile_append2)
  also from assms(2) have "\<dots> = post" by (cases post) auto
  finally show ?thesis .
qed








lemma tag_match:
  "match_alts [[One (ch l), Plus P]] s =
     (case s of
        [] \<Rightarrow> None
      | c # s' \<Rightarrow> if c = of_char l \<and> s' \<noteq> [] \<and> P (hd s') then Some (dropWhile P s') else None)"
  by (cases s) (simp_all add: match_plus ch_def)

lemma tag_sub:
  assumes w: "w \<noteq> []" "\<forall>c \<in> set w. P c" and post: "post = [] \<or> \<not> P (hd post)"
    and free: "\<nexists>x c y. pre = x @ of_char l # c # y \<and> P c" and l: "\<not> P (of_char l)"
  shows "re_sub [[One (ch l), Plus P]] repl (pre @ of_char l # w @ post) =
         pre @ repl (of_char l # w) @ re_sub [[One (ch l), Plus P]] repl post"
proof -
  let ?alts = "[[One (ch l), Plus P]]"
  have "re_sub ?alts repl (pre @ (of_char l # w) @ post) =
        pre @ re_sub ?alts repl ((of_char l # w) @ post)"
  proof (rule re_sub_prefix)
    fix u v assume pre: "pre = v @ u" and u: "u \<noteq> []"
    then obtain c u' where uc: "u = c # u'" by (cases u) auto
    show "match_alts ?alts (u @ (of_char l # w) @ post) = None"
    proof (cases u')
      case Nil
      with uc l show ?thesis unfolding tag_match by simp
    next
      case (Cons d u'')
      with free pre uc have "c = of_char l \<Longrightarrow> \<not> P d" by auto
      with uc Cons show ?thesis unfolding tag_match by auto
    qed
  qed
  also have "re_sub ?alts repl ((of_char l # w) @ post) =
        repl (of_char l # w) @ re_sub ?alts repl post"
  proof (rule re_sub_hit)
    have "dropWhile P (w @ post) = post" using w(2) post by (rule dropWhile_run)
    moreover from w have "P (hd (w @ post))" by (cases w) auto
    ultimately show "match_alts ?alts ((of_char l # w) @ post) = Some post"
      using w(1) unfolding tag_match by simp
  qed simp
  finally show ?thesis by simp
qed

lemma tag_none:
  assumes "\<nexists>x c y. t = x @ of_char l # c # y \<and> P c"
  shows "re_sub [[One (ch l), Plus P]] repl t = t"
proof (rule re_sub_no_match)
  fix u v assume t: "t = v @ u" and u: "u \<noteq> []"
  then obtain c u' where uc: "u = c # u'" by (cases u) auto
  show "match_alts [[One (ch l), Plus P]] u = None"
  proof (cases u')
    case Nil
    with uc show ?thesis unfolding tag_match by simp
  next
    case (Cons d u'')
    with assms t uc have "c = of_char l \<Longrightarrow> \<not> P d" by auto
    with uc Cons show ?thesis unfolding tag_match by auto
  qed
qed

lemma mention_step_tag:
  assumes "w \<noteq> []" "\<forall>c \<in> set w. is_word L c" "post = [] \<or> \<not> is_word L (hd post)"
    "tag_free L 64 pre"
  shows "mention_step L (pre @ 64 # w @ post) = pre @ ustr ''@user'' @ mention_step L post"
  using tag_sub [of w "is_word L" post pre "CHR ''@''" "\<lambda>m. ustr ''@user''"] assms
  by (simp add: mention_step_def MENTION_RE_def tag_free_def not_word_punct)

lemma mention_step_free: "tag_free L 64 t \<Longrightarrow> mention_step L t = t"
  using tag_none [of t "CHR ''@''" "is_word L" "\<lambda>m. ustr ''@user''"]
  by (simp add: mention_step_def MENTION_RE_def tag_free_def)

lemma hashtag_step_tag:
  assumes "w \<noteq> []" "\<forall>c \<in> set w. is_word L c" "post = [] \<or> \<not> is_word L (hd post)"
    "tag_free L 35 pre"
  shows "hashtag_step L (pre @ 35 # w @ post) = pre @ w @ hashtag_step L post"
  using tag_sub [of w "is_word L" post pre "CHR ''#''" tl] assms
  by (simp add: hashtag_step_def HASHTAG_RE_def tag_free_def not_word_punct)

lemma hashtag_step_free: "tag_free L 35 t \<Longrightarrow> hashtag_step L t = t"
  using tag_none [of t "CHR ''#''" "is_word L" tl]
  by (simp add: hashtag_step_def HASHTAG_RE_def tag_free_def)

lemma ci_RT:
  "ci CHR ''R'' c \<longleftrightarrow> c = 82 \<or> c = 114"
  "ci CHR ''T'' c \<longleftrightarrow> c = 84 \<or> c = 116"
  by (auto simp: ci_def ascii_lower_def Let_def split: if_splits)

lemma rt_match:
  "match_seq RT_RE s =
     (case s of
        r # k # s' \<Rightarrow>
          if (r = 82 \<or> r = 114) \<and> (k = 84 \<or> k = 116) \<and> s' \<noteq> [] \<and> is_space (hd s')
          then Some (dropWhile is_space s') else None
      | _ \<Rightarrow> None)"
  by (simp add: RT_RE_def lit_ci_def ci_RT match_plus split: list.splits)

lemma rt_step_marker:
  assumes "r = 82 \<or> r = 114" "k = 84 \<or> k = 116" "ws \<noteq> []" "\<forall>c \<in> set ws. is_space c"
    "rest = [] \<or> \<not> is_space (hd rest)"
  shows "rt_step (r # k # ws @ rest) = rest"
proof -
  have "dropWhile is_space (ws @ rest) = rest" using assms(4,5) by (rule dropWhile_run)
  moreover from assms(3,4) have "is_space (hd (ws @ rest))" by (cases ws) auto
  ultimately show ?thesis
    using assms(1,2,3) by (simp add: rt_step_def re_sub_start_def rt_match)
qed

lemma rt_step_unmarked:
  assumes "\<not> rt_marked s"
  shows "rt_step s = s"
proof -
  have "match_seq RT_RE s = None"
  proof (rule ccontr)
    assume "match_seq RT_RE s \<noteq> None"
    then obtain r k s' where
      "s = r # k # s'" "r = 82 \<or> r = 114" "k = 84 \<or> k = 116" "s' \<noteq> []" "is_space (hd s')"
      unfolding rt_match by (auto split: list.splits if_splits)
    then have "rt_marked s" unfolding rt_marked_def by (cases s') auto
    with assms show False by simp
  qed
  then show ?thesis by (simp add: rt_step_def re_sub_start_def)
qed

lemma example_tweet:
  "preprocess L (CStr (ustr ''RT @bob check http://x.co #great'')) (CStr (ustr ''twitter''))
     = ustr ''@user check great''"
  by (simp add: preprocess_def regex_eval)


lemma example_tweet_facts:
  "\<not> startswith (ustr ''@user check great'') (ustr ''RT '')"
  "py_in (ustr ''@user'') (ustr ''@user check great'')"
  "py_in (ustr ''great'') (ustr ''@user check great'')"
  "\<not> py_in (ustr ''#'') (ustr ''@user check great'')"
  "\<not> py_in (ustr ''http'') (ustr ''@user check great'')"
  "\<not> py_in (ustr ''x.co'') (ustr ''@user check great'')"
  by (simp_all add: startswith_def ustr_def)

lemma preprocess_order:
  "strip t \<noteq> [] \<Longrightarrow>
   preprocess L (CStr t) platform =
     whitespace_step (platform_step L platform (url_step (html_step L t)))"
  by (simp add: preprocess_def)


lemma tag_free_absent: "a \<notin> set t \<Longrightarrow> tag_free L a t"
  by (auto simp: tag_free_def)



text \<open>
  A numeric character reference is not of that form (\<open>#\<close> is not a word character)
  and stays.
\<close>

lemma numeric_reference_kept: "html_step L (ustr ''&#39;'') = ustr ''&#39;''"
  by (simp add: regex_eval)

text \<open>
  C5. For the platform \<open>twitter\<close>, \<open>preprocess\<close> on a string that is not blank runs
  the retweet step, the mention step and the hashtag step, in this order, between the
  URL step and the white-space step. The retweet step removes a leading \<open>RT\<close> (in
  either case) with the white space after it, and leaves a text without that marker as
  it is. The mention step replaces a mention (the at sign and the word characters
  after it) that follows mention-free text by \<open>@user\<close> and goes on behind it; the
  hashtag step replaces a hashtag that follows hashtag-free text by its word. On
  \<open>RT @bob check http://x.co #great\<close> the result is \<open>@user check great\<close>: no
  \<open>RT\<close> prefix, \<open>@user\<close> and \<open>great\<close> in it, no hash sign and no URL.
\<close>

theorem twitter_cleaning:
  "(strip t \<noteq> [] \<longrightarrow>
      preprocess L (CStr t) (CStr (ustr ''twitter'')) =
        whitespace_step (hashtag_step L (mention_step L (rt_step (url_step (html_step L t)))))) \<and>
   ((r = 82 \<or> r = 114) \<and> (k = 84 \<or> k = 116) \<and> ws \<noteq> [] \<and> (\<forall>c \<in> set ws. is_space c) \<and>
    (rest = [] \<or> \<not> is_space (hd rest)) \<longrightarrow> rt_step (r # k # ws @ rest) = rest) \<and>
   (\<not> rt_marked s \<longrightarrow> rt_step s = s) \<and>
   (w \<noteq> [] \<and> (\<forall>c \<in> set w. is_word L c) \<and> (post = [] \<or> \<not> is_word L (hd post)) \<longrightarrow>
      (tag_free L 64 pre \<longrightarrow>
         mention_step L (pre @ 64 # w @ post) = pre @ ustr ''@user'' @ mention_step L post) \<and>
      (tag_free L 35 pre \<longrightarrow>
         hashtag_step L (pre @ 35 # w @ post) = pre @ w @ hashtag_step L post)) \<and>
   (tag_free L 64 u \<longrightarrow> mention_step L u = u) \<and>
   (tag_free L 35 u \<longrightarrow> hashtag_step L u = u) \<and>
   preprocess L (CStr (ustr ''RT @bob check http://x.co #great'')) (CStr (ustr ''twitter''))
     = ustr ''@user check great'' \<and>
   \<not> startswith (ustr ''@user check great'') (ustr ''RT '') \<and>
   py_in (ustr ''@user'') (ustr ''@user check great'') \<and>
   py_in (ustr ''great'') (ustr ''@user check great'') \<and>
   \<not> py_in (ustr ''#'') (ustr ''@user check great'') \<and>
   \<not> py_in (ustr ''http'') (ustr ''@user check great'') \<and>
   \<not> py_in (ustr ''x.co'') (ustr ''@user check great'')"
proof -
  have order: "strip t \<noteq> [] \<longrightarrow>
      preprocess L (CStr t) (CStr (ustr ''twitter'')) =
        whitespace_step (hashtag_step L (mention_step L (rt_step (url_step (html_step L t)))))"
    by (simp add: preprocess_order platform_step_def twitter_step_def)
  have rt: "(r = 82 \<or> r = 114) \<and> (k = 84 \<or> k = 116) \<and> ws \<noteq> [] \<and> (\<forall>c \<in> set ws. is_space c) \<and>
    (rest = [] \<or> \<not> is_space (hd rest)) \<longrightarrow> rt_step (r # k # ws @ rest) = rest"
    using rt_step_marker [of r k ws rest] by blast
  have tags: "w \<noteq> [] \<and> (\<forall>c \<in> set w. is_word L c) \<and> (post = [] \<or> \<not> is_word L (hd post)) \<longrightarrow>
      (tag_free L 64 pre \<longrightarrow>
         mention_step L (pre @ 64 # w @ post) = pre @ ustr ''@user'' @ mention_step L post) \<and>
      (tag_free L 35 pre \<longrightarrow>
         hashtag_step L (pre @ 35 # w @ post) = pre @ w @ hashtag_step L post)"
    using mention_step_tag [of w L post pre] hashtag_step_tag [of w L post pre] by blast
  have unmarked: "\<not> rt_marked s \<longrightarrow> rt_step s = s"
    by (simp add: rt_step_unmarked)
  have none: "tag_free L 64 u \<longrightarrow> mention_step L u = u" "tag_free L 35 u \<longrightarrow> hashtag_step L u = u"
    by (simp_all add: mention_step_free hashtag_step_free)
  show ?thesis
    using order rt unmarked tags none example_tweet [of L] example_tweet_facts
    by (intro conjI) assumption+
qed

theorem twitter_cleaning_witness:
  "rt_step (ustr ''rt  @bob'') = ustr ''@bob'' \<and>
   rt_step (ustr ''art @bob'') = ustr ''art @bob'' \<and>
   mention_step sample_libs (ustr ''hi @bob_2!'') = ustr ''hi @user!'' \<and>
   hashtag_step sample_libs (ustr ''so #great.'') = ustr ''so great.'' \<and>
   strip (ustr ''RT @a #b'') \<noteq> [] \<and>
   preprocess sample_libs (CStr (ustr ''RT @a #b'')) (CStr (ustr ''twitter'')) = ustr ''@user b''"
proof -
  have rt1: "rt_step (ustr ''rt  @bob'') = ustr ''@bob''"
    using twitter_cleaning [where r = 114 and k = 116 and ws = "ustr ''  ''" and rest = "ustr ''@bob''"]
    by (simp add: ustr_def is_space_def)
  have "\<not> rt_marked (ustr ''art @bob'')"
    by (simp add: rt_marked_def ustr_def)
  then have rt2: "rt_step (ustr ''art @bob'') = ustr ''art @bob''"
    using twitter_cleaning [where s = "ustr ''art @bob''"] by blast
  have f64: "tag_free sample_libs 64 (ustr ''hi '')" "tag_free sample_libs 64 (ustr ''!'')"
    by (rule tag_free_absent, simp add: ustr_def)+
  have f35: "tag_free sample_libs 35 (ustr ''so '')" "tag_free sample_libs 35 (ustr ''.'')"
    by (rule tag_free_absent, simp add: ustr_def)+
  have m: "mention_step sample_libs (ustr ''hi @bob_2!'') = ustr ''hi @user!''"
    using twitter_cleaning [where L = sample_libs and w = "ustr ''bob_2''" and post = "ustr ''!''"
        and pre = "ustr ''hi ''" and u = "ustr ''!''"] f64
    by (simp add: ustr_def is_word_ascii)
  have h: "hashtag_step sample_libs (ustr ''so #great.'') = ustr ''so great.''"
    using twitter_cleaning [where L = sample_libs and w = "ustr ''great''" and post = "ustr ''.''"
        and pre = "ustr ''so ''" and u = "ustr ''.''"] f35
    by (simp add: ustr_def is_word_ascii)
  have ne: "strip (ustr ''RT @a #b'') \<noteq> []"
    by (simp add: strip_def ustr_def is_space_def)
  have "preprocess sample_libs (CStr (ustr ''RT @a #b'')) (CStr (ustr ''twitter'')) =
      whitespace_step (hashtag_step sample_libs (mention_step sample_libs
        (rt_step (url_step (html_step sample_libs (ustr ''RT @a #b''))))))"
    using twitter_cleaning [where L = sample_libs and t = "ustr ''RT @a #b''"] ne by blast
  also have "\<dots> = ustr ''@user b''"
    by (simp add: regex_eval)
  finally show ?thesis using rt1 rt2 m h ne by simp
qed

subsection \<open>Contextual scorer\<close>









text \<open>
  The batch size has to be positive: \<open>range\<close> is empty for a negative step and raises
  for a step of zero.
\<close>

lemma analyze_batch_negative_size:
  "roberta_analyze_batch R texts (- 1) = Inr []"
  by (simp add: roberta_analyze_batch_def)

lemma analyze_batch_zero_size:
  "roberta_analyze_batch R texts 0 = Inl ValueError"
  by (simp add: roberta_analyze_batch_def)

subsection \<open>Pipeline: the caller's frame\<close>

lemma triple_bind:
  assumes "triple I m Q" and "\<And>a. Q a \<Longrightarrow> triple I (f a) Q'"
  shows "triple I (bind m f) Q'"
  unfolding triple_def bind_def
proof (intro allI impI)
  fix s assume "I s"
  with assms(1) have m: "case m s of (Inl e, s') \<Rightarrow> I s' | (Inr a, s') \<Rightarrow> I s' \<and> Q a"
    by (simp add: triple_def)
  show "case (case m s of (Inl e, s') \<Rightarrow> (Inl e, s') | (Inr a, s') \<Rightarrow> f a s') of
          (Inl e, s') \<Rightarrow> I s' | (Inr a, s') \<Rightarrow> I s' \<and> Q' a"
  proof (cases "m s")
    case (Pair r s1)
    show ?thesis
    proof (cases r)
      case (Inl e)
      with Pair m show ?thesis by simp
    next
      case (Inr a)
      with Pair m have "I s1" "Q a" by simp_all
      with assms(2) have "case f a s1 of (Inl e, s') \<Rightarrow> I s' | (Inr b, s') \<Rightarrow> I s' \<and> Q' b"
        by (simp add: triple_def)
      with Pair Inr show ?thesis by simp
    qed
  qed
qed

lemma triple_return: "Q a \<Longrightarrow> triple I (return a) Q"
  by (simp add: triple_def return_def)

lemma triple_lift: "(\<And>a. r = Inr a \<Longrightarrow> Q a) \<Longrightarrow> triple I (lift r) Q"
  by (cases r) (simp_all add: triple_def lift_def)

lemma triple_log_info: "triple (copy_inv s0 df0) (log_info msg) (\<lambda>_. True)"
  by (simp add: triple_def log_info_def copy_inv_def)

lemma triple_df_rows: "triple I (df_rows d) (\<lambda>_. True)"
  by (simp add: triple_def df_rows_def)

lemma triple_df_apply: "triple I (df_apply d f) (\<lambda>_. True)"
  unfolding df_apply_def
  by (rule triple_bind [OF triple_df_rows]) (rule triple_lift, simp)

lemma triple_df_getcol: "triple I (df_getcol d c) (\<lambda>_. True)"
  unfolding df_getcol_def
  by (rule triple_bind [OF triple_df_rows]) (rule triple_lift, simp)

lemma same_outside_set_col:
  assumes "same_outside K f g" "c \<in> K" "length vals = length g"
  shows "same_outside K f (set_col c vals g)"
  using assms by (auto simp: same_outside_def set_col_def)

lemma triple_df_setcol:
  assumes "c \<in> derived_columns"
  shows "triple (copy_inv s0 df0) (df_setcol (length (heap s0)) c vals) (\<lambda>_. True)"
  using assms
  by (auto simp: triple_def df_setcol_def copy_inv_def nth_list_update same_outside_set_col)

lemma triple_attach:
  "set cols \<subseteq> derived_columns \<Longrightarrow>
   triple (copy_inv s0 df0) (attach (length (heap s0)) dicts cols) (\<lambda>_. True)"
proof (induction cols)
  case Nil
  then show ?case by (simp add: triple_return)
next
  case (Cons c cols)
  then show ?case
    by (auto intro!: triple_bind [OF triple_df_setcol])
qed

lemma vader_analyze_keys: "fst ` set (vader_analyze v t) \<subseteq> derived_columns"
  by (simp add: vader_analyze_def derived_columns_def Let_def)

lemma result_dict_keys: "result_dict R sc = Inr d \<Longrightarrow> fst ` set d \<subseteq> derived_columns"
  by (auto simp: result_dict_def derived_columns_def split: sum.splits option.splits)

lemma dict_columns_subset:
  "(\<And>d. d \<in> set dicts \<Longrightarrow> fst ` set d \<subseteq> K) \<Longrightarrow> set (dict_columns dicts) \<subseteq> K"
  by (cases dicts) (auto simp: dict_columns_def)

lemma append_results_set:
  "append_results R rows acc = Inr res \<Longrightarrow> d \<in> set res \<Longrightarrow>
   d \<in> set acc \<or> (\<exists>sc. result_dict R sc = Inr d)"
proof (induction rows arbitrary: acc)
  case Nil
  then show ?case by simp
next
  case (Cons sc rows)
  from Cons.prems(1) obtain d1 where
    a: "result_dict R sc = Inr d1" and b: "append_results R rows (acc @ [d1]) = Inr res"
    by (auto split: sum.splits)
  from Cons.IH [OF b Cons.prems(2)] a show ?case by auto
qed

lemma batch_loop_set:
  "batch_loop R texts bs ks acc = Inr res \<Longrightarrow> d \<in> set res \<Longrightarrow>
   d \<in> set acc \<or> (\<exists>sc. result_dict R sc = Inr d)"
proof (induction ks arbitrary: acc)
  case Nil
  then show ?case by simp
next
  case (Cons k ks)
  from Cons.prems(1) obtain logits acc' where
    a: "append_results R (map (softmax R) logits) acc = Inr acc'" and
    b: "batch_loop R texts bs ks acc' = Inr res"
    by (auto split: sum.splits)
  from Cons.IH [OF b Cons.prems(2)] append_results_set [OF a] show ?case by blast
qed

lemma analyze_batch_keys:
  "roberta_analyze_batch R texts bs = Inr res \<Longrightarrow> set (dict_columns res) \<subseteq> derived_columns"
proof (rule dict_columns_subset)
  fix d assume "roberta_analyze_batch R texts bs = Inr res" "d \<in> set res"
  then have "\<exists>sc. result_dict R sc = Inr d"
    using batch_loop_set [of R texts bs _ "[]" res d]
    by (auto simp: roberta_analyze_batch_def split: if_splits)
  then show "fst ` set d \<subseteq> derived_columns"
    by (auto dest: result_dict_keys)
qed

lemma triple_roberta_step:
  "triple (copy_inv s0 df0) (roberta_step L R (length (heap s0))) (\<lambda>_. True)"
  unfolding roberta_step_def
  apply (rule triple_bind [OF triple_log_info])
  apply (rule triple_bind [OF triple_df_getcol])
  apply (rule triple_bind [where Q = "\<lambda>_. True"])
   apply (rule triple_lift, simp)
  apply (rule triple_bind [where Q = "\<lambda>res. set (dict_columns res) \<subseteq> derived_columns"])
   apply (rule triple_lift, erule analyze_batch_keys)
  apply (erule triple_attach)
  done

lemma vader_results_keys:
  assumes "map_exc (\<lambda>t. case as_str t of Inl e \<Rightarrow> Inl e | Inr s \<Rightarrow> Inr (vader_analyze v s)) texts = Inr res"
  shows "set (dict_columns res) \<subseteq> derived_columns"
proof (rule dict_columns_subset)
  fix d assume "d \<in> set res"
  from map_exc_set [OF assms this] obtain t where
    "(case as_str t of Inl e \<Rightarrow> Inl e | Inr s \<Rightarrow> Inr (vader_analyze v s)) = Inr d" by blast
  then obtain s where "d = vader_analyze v s" by (auto split: sum.splits)
  then show "fst ` set d \<subseteq> derived_columns" by (simp add: vader_analyze_keys)
qed

lemma triple_after_copy:
  "triple (copy_inv s0 df0)
     (bind (log_info m1) (\<lambda>_.
      bind (df_apply (length (heap s0)) (clean_row L)) (\<lambda>clean.
      bind (df_setcol (length (heap s0)) (ustr ''clean_text'') clean) (\<lambda>_.
      bind (log_info m2) (\<lambda>_.
      bind (df_getcol (length (heap s0)) (ustr ''clean_text'')) (\<lambda>texts.
      bind (lift (map_exc (\<lambda>t. case as_str t of Inl e \<Rightarrow> Inl e
                                | Inr s \<Rightarrow> Inr (vader_analyze (vader self) s)) texts)) (\<lambda>vader_results.
      bind (attach (length (heap s0)) vader_results (dict_columns vader_results)) (\<lambda>_.
      bind (case roberta self of
              Some R \<Rightarrow> roberta_step L R (length (heap s0))
            | None \<Rightarrow> log_info m3) (\<lambda>_.
      bind (df_apply (length (heap s0)) (ensemble_label self)) (\<lambda>labels.
      bind (df_setcol (length (heap s0)) (ustr ''final_label'') labels) (\<lambda>_.
      bind (df_apply (length (heap s0)) (ensemble_score self)) (\<lambda>final_scores.
      bind (df_setcol (length (heap s0)) (ustr ''final_score'') final_scores) (\<lambda>_.
      return (length (heap s0)))))))))))))))
     (\<lambda>df. df = length (heap s0))"
  apply (rule triple_bind [OF triple_log_info])
  apply (rule triple_bind [OF triple_df_apply])
  apply (rule triple_bind [OF triple_df_setcol], simp add: derived_columns_def)
  apply (rule triple_bind [OF triple_log_info])
  apply (rule triple_bind [OF triple_df_getcol])
  apply (rule triple_bind [where Q = "\<lambda>res. set (dict_columns res) \<subseteq> derived_columns"])
   apply (rule triple_lift, erule vader_results_keys)
  apply (rule triple_bind [OF triple_attach], assumption)
  apply (rule triple_bind [where Q = "\<lambda>_. True"])
   apply (cases "roberta self"; simp add: triple_log_info triple_roberta_step)
  apply (rule triple_bind [OF triple_df_apply])
  apply (rule triple_bind [OF triple_df_setcol], simp add: derived_columns_def)
  apply (rule triple_bind [OF triple_df_apply])
  apply (rule triple_bind [OF triple_df_setcol], simp add: derived_columns_def)
  apply (rule triple_return, simp)
  done

lemma bind_df_copy:
  "df0 < length (heap s) \<Longrightarrow>
   bind (df_copy df0) f s = f (length (heap s)) (s\<lparr>heap := heap s @ [heap s ! df0]\<rparr>)"
  by (simp add: bind_def df_copy_def)

lemma bind_df_copy_invalid:
  "\<not> df0 < length (heap s) \<Longrightarrow> bind (df_copy df0) f s = (Inl AttributeError, s)"
  by (simp add: bind_def df_copy_def)

text \<open>
  C10. \<open>analyze_dataframe\<close> does not mutate the frame it is given: whether it returns
  or raises, every frame that was live before the call has the rows it had. When it
  returns, the frame it returns is a new object, and its rows agree with the rows of
  the caller's frame on every column other than the derived ones.
\<close>

theorem analyze_dataframe_leaves_input:
  "case analyze_dataframe L self df0 show_progress s of
     (res, s') \<Rightarrow>
       (\<forall>a < length (heap s). heap s' ! a = heap s ! a) \<and>
       (\<forall>df. res = Inr df \<longrightarrow>
          df0 < length (heap s) \<and> df = length (heap s) \<and>
          length (heap s') = Suc (length (heap s)) \<and>
          same_outside derived_columns (heap s ! df0) (heap s' ! df))"
proof (cases "df0 < length (heap s)")
  case False
  then show ?thesis
    unfolding analyze_dataframe_def by (simp add: bind_df_copy_invalid)
next
  case True
  let ?s1 = "s\<lparr>heap := heap s @ [heap s ! df0]\<rparr>"
  have inv1: "copy_inv s df0 ?s1"
    by (simp add: copy_inv_def same_outside_def nth_append)
  have run: "case analyze_dataframe L self df0 show_progress s of
          (Inl e, s') \<Rightarrow> copy_inv s df0 s'
        | (Inr df, s') \<Rightarrow> copy_inv s df0 s' \<and> df = length (heap s)"
    unfolding analyze_dataframe_def bind_df_copy [OF True]
    using triple_after_copy [unfolded triple_def, rule_format, OF inv1] .
  obtain res s' where r: "analyze_dataframe L self df0 show_progress s = (res, s')"
    by (cases "analyze_dataframe L self df0 show_progress s")
  show ?thesis
  proof (cases res)
    case (Inl e)
    with run r show ?thesis by (simp add: copy_inv_def)
  next
    case (Inr df)
    with run r True show ?thesis by (simp add: copy_inv_def)
  qed
qed

subsection \<open>Pipeline: a lexical-only run\<close>

text \<open>One step of an action, as a rewrite rule.\<close>

lemma bind_log_info: "bind (log_info msg) k s = k () (s\<lparr>logs := logs s @ [LogInfo msg]\<rparr>)"
  by (simp add: bind_def log_info_def)

lemma bind_lift: "bind (lift r) k s = (case r of Inl e \<Rightarrow> (Inl e, s) | Inr a \<Rightarrow> k a s)"
  by (cases r) (simp_all add: bind_def lift_def)

lemma bind_df_apply:
  "bind (df_apply n f) k s =
     (if n < length (heap s)
      then (case map_exc f (heap s ! n) of Inl e \<Rightarrow> (Inl e, s) | Inr vs \<Rightarrow> k vs s)
      else (Inl AttributeError, s))"
  by (simp add: bind_def df_apply_def df_rows_def lift_def split: sum.splits)

lemma bind_df_getcol:
  "bind (df_getcol n c) k s =
     (if n < length (heap s)
      then (case map_exc (\<lambda>r. row_item r c) (heap s ! n) of Inl e \<Rightarrow> (Inl e, s) | Inr vs \<Rightarrow> k vs s)
      else (Inl AttributeError, s))"
  by (simp add: bind_def df_getcol_def df_rows_def lift_def split: sum.splits)

lemma bind_df_setcol:
  "bind (df_setcol n c vs) k s =
     (if n < length (heap s) then
        (if length vs = length (heap s ! n)
         then k () (s\<lparr>heap := (heap s)[n := set_col c vs (heap s ! n)]\<rparr>)
         else (Inl ValueError, s))
      else (Inl AttributeError, s))"
  by (simp add: bind_def df_setcol_def)

lemma bind_return: "bind (return a) k = k a"
  by (rule ext) (simp add: bind_def return_def)

lemma bind_assoc: "bind (bind m f) g = bind m (\<lambda>a. bind (f a) g)"
  by (rule ext) (simp add: bind_def split: prod.splits sum.splits)

lemmas run_steps = bind_assoc bind_return bind_df_copy bind_log_info bind_lift bind_df_apply bind_df_getcol bind_df_setcol
  return_def nth_append_length list_update_length

lemma vader_analyze_lookup:
  "map_of (vader_analyze v t) (ustr ''vader_compound'') = Some (CFloat (sc_compound (v t)))"
  "map_of (vader_analyze v t) (ustr ''vader_positive'') = Some (CFloat (sc_pos (v t)))"
  "map_of (vader_analyze v t) (ustr ''vader_negative'') = Some (CFloat (sc_neg (v t)))"
  "map_of (vader_analyze v t) (ustr ''vader_neutral'') = Some (CFloat (sc_neu (v t)))"
  "map_of (vader_analyze v t) (ustr ''vader_label'') = Some (CStr (compound_to_label (sc_compound (v t))))"
  by (simp_all add: vader_analyze_def Let_def)

lemma vader_analyze_columns:
  "dict_columns (map (\<lambda>r. vader_analyze v (g r)) f) =
     (if f = [] then []
      else [ustr ''vader_compound'', ustr ''vader_positive'', ustr ''vader_negative'',
            ustr ''vader_neutral'', ustr ''vader_label''])"
  by (cases f) (simp_all add: dict_columns_def vader_analyze_def Let_def)

lemma analyze_dataframe_lexical:
  assumes none: "roberta self = None" and valid: "df0 < length (heap s)"
  shows "analyze_dataframe L self df0 show_progress s =
           (Inr (length (heap s)),
            s\<lparr>heap := heap s @ [map (lexical_row L self) (heap s ! df0)],
              logs := logs s @ [LogInfo (ustr ''Step 1/3: Preprocessing text...''),
                                LogInfo (ustr ''Step 2/3: Running VADER analysis...''),
                                LogInfo (ustr ''Step 3/3: Skipping RoBERTa (not available)'')]\<rparr>)"
proof -
  let ?f = "heap s ! df0"
  have clean: "map_exc (clean_row L) ?f = Inr (map (\<lambda>r. CStr (clean_text_of L r)) ?f)"
    unfolding clean_row_def clean_text_of_def by (rule map_exc_total)
  from none valid show ?thesis
    unfolding analyze_dataframe_def
    by (simp add: run_steps clean set_col_Nil set_col_map_id set_col_map map_exc_map map_exc_total
        row_item_def vader_analyze_columns vader_analyze_lookup dict_column_def o_def
        ensemble_label_def ensemble_score_def lexical_row_def Let_def)
qed

lemma lexical_run_heap:
  assumes "roberta self = None" and "df0 < length (heap s)"
  shows "\<exists>s'. analyze_dataframe L self df0 show_progress s = (Inr (length (heap s)), s') \<and>
              heap s' = heap s @ [map (lexical_row L self) (heap s ! df0)]"
  by (simp add: analyze_dataframe_lexical [OF assms])

lemma clean_text_of_null:
  "r (ustr ''text'') = Some CNone \<Longrightarrow> clean_text_of L r = ustr ''None''"
  by (simp add: clean_text_of_def row_get_def preprocess_None)

lemma sample_rows:
  "heap sample_state ! 0 =
     [[ustr ''text'' \<mapsto> CStr (ustr ''good''), ustr ''platform'' \<mapsto> CStr (ustr ''twitter'')],
      [ustr ''text'' \<mapsto> CNone, ustr ''platform'' \<mapsto> CStr (ustr ''twitter'')]]"
  "length (heap sample_state) = 1"
  by (simp_all add: sample_state_def)

lemma sample_clean:
  "clean_text_of L [ustr ''text'' \<mapsto> CStr (ustr ''good''), ustr ''platform'' \<mapsto> CStr (ustr ''twitter'')]
     = ustr ''good''"
  by (simp add: clean_text_of_def row_get_def preprocess_good)

theorem analyze_dataframe_leaves_input_witness:
  "0 < length (heap sample_state) \<and>
   (\<exists>s'. analyze_dataframe sample_libs lexical_only 0 True sample_state = (Inr 1, s') \<and>
         heap s' ! 0 = heap sample_state ! 0 \<and>
         length (heap s') = 2 \<and>
         same_outside derived_columns (heap sample_state ! 0) (heap s' ! 1))"
proof -
  have none: "roberta lexical_only = None" by (simp add: lexical_only_def)
  have valid: "0 < length (heap sample_state)" by (simp add: sample_rows)
  from lexical_run_heap [OF none valid] obtain s' where
    r: "analyze_dataframe sample_libs lexical_only 0 True sample_state = (Inr 1, s')"
    by (auto simp: sample_rows)
  from analyze_dataframe_leaves_input [where L = sample_libs and self = lexical_only and ?df0.0 = 0
      and show_progress = True and s = sample_state] r valid
  have "heap s' ! 0 = heap sample_state ! 0 \<and> length (heap s') = 2 \<and>
        same_outside derived_columns (heap sample_state ! 0) (heap s' ! 1)"
    by (simp add: sample_rows)
  with r valid show ?thesis by blast
qed

text \<open>
  C7. When the construction of the contextual scorer raises an exception of class
  \<open>Exception\<close> while \<open>use_roberta\<close> is true, the construction of the pipeline
  succeeds and logs a warning that carries the exception. Every run of
  \<open>analyze_dataframe\<close> with that pipeline on a frame with at least one row then
  returns, leaves the \<open>roberta_*\<close> columns of every record as the caller's frame had
  them, and sets \<open>final_label\<close> to the lexical label and \<open>final_score\<close> to
  \<open>(compound + 1) / 2\<close> of the lexical result.
\<close>

theorem lexical_only_after_failed_load:
  assumes v: "vader_ctor L = Inr v"
    and fail: "roberta_init L ROBERTA_MODEL lg = (Inl e, lg1)"
    and exc: "is_Exception e"
  shows "\<exists>self. pipeline_init L True lg =
             (Inr self, lg1 @ [LogWarning (ustr ''RoBERTa unavailable, using VADER only: '') e]) \<and>
           roberta self = None \<and> vader self = v \<and>
           (\<forall>s df0 show_progress. df0 < length (heap s) \<and> heap s ! df0 \<noteq> [] \<longrightarrow>
              (\<exists>s'. analyze_dataframe L self df0 show_progress s = (Inr (length (heap s)), s') \<and>
                 length (heap s' ! length (heap s)) = length (heap s ! df0) \<and>
                 (\<forall>i < length (heap s ! df0).
                    let r = heap s ! df0 ! i;
                        out = heap s' ! length (heap s) ! i;
                        c = sc_compound (v (clean_text_of L r))
                    in (\<forall>k \<in> roberta_columns. out k = r k) \<and>
                       out (ustr ''vader_label'') = Some (CStr (compound_to_label c)) \<and>
                       out (ustr ''final_label'') = Some (CStr (compound_to_label c)) \<and>
                       out (ustr ''final_score'') = Some (CFloat (fhalf (fadd c (Fin 1)))))))"
proof -
  let ?self = "\<lparr>vader = v, roberta = None\<rparr>"
  have init: "pipeline_init L True lg =
      (Inr ?self, lg1 @ [LogWarning (ustr ''RoBERTa unavailable, using VADER only: '') e])"
    using v fail exc by (simp add: pipeline_init_def)
  have run: "\<exists>s'. analyze_dataframe L ?self df0 show_progress s = (Inr (length (heap s)), s') \<and>
                 length (heap s' ! length (heap s)) = length (heap s ! df0) \<and>
                 (\<forall>i < length (heap s ! df0).
                    let r = heap s ! df0 ! i;
                        out = heap s' ! length (heap s) ! i;
                        c = sc_compound (v (clean_text_of L r))
                    in (\<forall>k \<in> roberta_columns. out k = r k) \<and>
                       out (ustr ''vader_label'') = Some (CStr (compound_to_label c)) \<and>
                       out (ustr ''final_label'') = Some (CStr (compound_to_label c)) \<and>
                       out (ustr ''final_score'') = Some (CFloat (fhalf (fadd c (Fin 1)))))"
    if valid: "df0 < length (heap s)" for s df0 show_progress
  proof -
    have "roberta ?self = None" by simp
    from analyze_dataframe_lexical [OF this valid, of L show_progress]
    show ?thesis
      by (auto simp: lexical_row_def roberta_columns_def Let_def)
  qed
  from init run show ?thesis by auto
qed

theorem lexical_only_after_failed_load_witness:
  "vader_ctor sample_libs = Inr sample_polarity \<and>
   roberta_init sample_libs ROBERTA_MODEL [] =
     (Inl (Failure (ustr ''no network'')), [LogInfo (ustr ''Loading RoBERTa model: '' @ ROBERTA_MODEL)]) \<and>
   is_Exception (Failure (ustr ''no network'')) \<and>
   (\<exists>self. pipeline_init sample_libs True [] =
        (Inr self, [LogInfo (ustr ''Loading RoBERTa model: '' @ ROBERTA_MODEL),
                    LogWarning (ustr ''RoBERTa unavailable, using VADER only: '')
                      (Failure (ustr ''no network''))]) \<and>
      roberta self = None \<and>
      0 < length (heap sample_state) \<and> heap sample_state ! 0 \<noteq> [] \<and>
      (\<exists>s'. analyze_dataframe sample_libs self 0 True sample_state = (Inr 1, s') \<and>
            (heap s' ! 1 ! 0) (ustr ''roberta_label'') = None \<and>
            (heap s' ! 1 ! 0) (ustr ''final_label'') = Some (CStr (ustr ''positive'')) \<and>
            (heap s' ! 1 ! 0) (ustr ''final_score'') = Some (CFloat (Fin 0.75))))"
proof -
  have v: "vader_ctor sample_libs = Inr sample_polarity"
    by (simp add: sample_libs_def)
  have fail: "roberta_init sample_libs ROBERTA_MODEL [] =
     (Inl (Failure (ustr ''no network'')), [LogInfo (ustr ''Loading RoBERTa model: '' @ ROBERTA_MODEL)])"
    by (simp add: roberta_init_def sample_libs_def)
  have exc: "is_Exception (Failure (ustr ''no network''))"
    by simp
  have nonempty: "0 < length (heap sample_state) \<and> heap sample_state ! 0 \<noteq> []"
    by (simp add: sample_rows)
  from lexical_only_after_failed_load [OF v fail exc] obtain self where
    init: "pipeline_init sample_libs True [] =
        (Inr self, [LogInfo (ustr ''Loading RoBERTa model: '' @ ROBERTA_MODEL)] @
                   [LogWarning (ustr ''RoBERTa unavailable, using VADER only: '')
                      (Failure (ustr ''no network''))])" and
    none: "roberta self = None" and
    run: "\<forall>s df0 show_progress. df0 < length (heap s) \<and> heap s ! df0 \<noteq> [] \<longrightarrow>
              (\<exists>s'. analyze_dataframe sample_libs self df0 show_progress s = (Inr (length (heap s)), s') \<and>
                 length (heap s' ! length (heap s)) = length (heap s ! df0) \<and>
                 (\<forall>i < length (heap s ! df0).
                    let r = heap s ! df0 ! i;
                        out = heap s' ! length (heap s) ! i;
                        c = sc_compound (sample_polarity (clean_text_of sample_libs r))
                    in (\<forall>k \<in> roberta_columns. out k = r k) \<and>
                       out (ustr ''vader_label'') = Some (CStr (compound_to_label c)) \<and>
                       out (ustr ''final_label'') = Some (CStr (compound_to_label c)) \<and>
                       out (ustr ''final_score'') = Some (CFloat (fhalf (fadd c (Fin 1))))))"
    by blast
  from run nonempty obtain s' where
    r: "analyze_dataframe sample_libs self 0 True sample_state = (Inr (length (heap sample_state)), s')" and
    rows: "\<forall>i < length (heap sample_state ! 0).
             let r = heap sample_state ! 0 ! i;
                 out = heap s' ! length (heap sample_state) ! i;
                 c = sc_compound (sample_polarity (clean_text_of sample_libs r))
             in (\<forall>k \<in> roberta_columns. out k = r k) \<and>
                out (ustr ''vader_label'') = Some (CStr (compound_to_label c)) \<and>
                out (ustr ''final_label'') = Some (CStr (compound_to_label c)) \<and>
                out (ustr ''final_score'') = Some (CFloat (fhalf (fadd c (Fin 1))))"
    by blast
  from rows have
    "(heap s' ! 1 ! 0) (ustr ''roberta_label'') = None \<and>
     (heap s' ! 1 ! 0) (ustr ''final_label'') = Some (CStr (ustr ''positive'')) \<and>
     (heap s' ! 1 ! 0) (ustr ''final_score'') = Some (CFloat (Fin 0.75))"
    by (simp add: sample_rows sample_clean Let_def roberta_columns_def sample_polarity_def
        compound_to_label_def)
  with v fail exc nonempty init none r show ?thesis
    by (auto simp: sample_rows)
qed

text \<open>
  C8. A record whose \<open>text\<close> is \<open>None\<close>: \<open>analyze_dataframe\<close> passes
  \<open>str(None)\<close> to \<open>preprocess\<close>, so the record's \<open>clean_text\<close> is the word
  \<open>None\<close>, where \<open>preprocess\<close> on the value \<open>None\<close> itself gives the empty
  string.
\<close>

theorem null_text_is_cleaned_to_the_word_None:
  "(heap sample_state ! 0 ! 1) (ustr ''text'') = Some CNone \<and>
   (\<exists>s'. analyze_dataframe sample_libs lexical_only 0 True sample_state = (Inr 1, s') \<and>
         (heap s' ! 1 ! 1) (ustr ''clean_text'') = Some (CStr (ustr ''None''))) \<and>
   preprocess sample_libs CNone (CStr (ustr ''twitter'')) = []"
proof -
  have none: "roberta lexical_only = None" by (simp add: lexical_only_def)
  have valid: "0 < length (heap sample_state)" by (simp add: sample_rows)
  have null: "(heap sample_state ! 0 ! 1) (ustr ''text'') = Some CNone"
    by (simp add: sample_rows)
  from lexical_run_heap [OF none valid] obtain s' where
    r: "analyze_dataframe sample_libs lexical_only 0 True sample_state = (Inr 1, s')" and
    h: "heap s' = heap sample_state @ [map (lexical_row sample_libs lexical_only) (heap sample_state ! 0)]"
    by (auto simp: sample_rows)
  have "(heap s' ! 1 ! 1) (ustr ''clean_text'') = Some (CStr (ustr ''None''))"
    by (simp add: h sample_state_def lexical_row_def Let_def clean_text_of_null)
  with r have "\<exists>s'. analyze_dataframe sample_libs lexical_only 0 True sample_state = (Inr 1, s') \<and>
         (heap s' ! 1 ! 1) (ustr ''clean_text'') = Some (CStr (ustr ''None''))"
    by blast
  moreover have "preprocess sample_libs CNone (CStr (ustr ''twitter'')) = []"
    by (simp add: preprocess_def)
  ultimately show ?thesis using null by simp
qed

subsection \<open>Lexical scorer\<close>

text \<open>
  C3. The discretisation of the compound score has inclusive boundaries: a compound of
  at least 0.05 is labelled positive, one of at most -0.05 negative, and every other
  value (the not-a-number value included) neutral; 0.05, -0.05 and 0.0 are labelled
  positive, negative and neutral.
\<close>

theorem compound_to_label_thresholds:
  "(x \<ge> 0.05 \<longrightarrow> compound_to_label (Fin x) = ustr ''positive'') \<and>
   (x \<le> - 0.05 \<longrightarrow> compound_to_label (Fin x) = ustr ''negative'') \<and>
   (\<not> x \<ge> 0.05 \<and> \<not> x \<le> - 0.05 \<longrightarrow> compound_to_label (Fin x) = ustr ''neutral'') \<and>
   compound_to_label NaN = ustr ''neutral'' \<and>
   compound_to_label (Fin 0.05) = ustr ''positive'' \<and>
   compound_to_label (Fin (- 0.05)) = ustr ''negative'' \<and>
   compound_to_label (Fin 0.0) = ustr ''neutral''"
  by (simp add: compound_to_label_def)

theorem compound_to_label_thresholds_witness:
  "(0.5 :: real) \<ge> 0.05 \<and> compound_to_label (Fin 0.5) = ustr ''positive'' \<and>
   (- 0.5 :: real) \<le> - 0.05 \<and> compound_to_label (Fin (- 0.5)) = ustr ''negative'' \<and>
   \<not> (0.01 :: real) \<ge> 0.05 \<and> \<not> (0.01 :: real) \<le> - 0.05 \<and>
   compound_to_label (Fin 0.01) = ustr ''neutral''"
  using compound_to_label_thresholds [of "0.5"] compound_to_label_thresholds [of "- 0.5"]
    compound_to_label_thresholds [of "0.01"]
  by simp

end
